theory Spec2Isabelle
  imports Complex_Main "HOL-Library.Log_Nat"
begin

section \<open>Data model (prisma schema)\<close>

text \<open>
  The models \<open>User\<close>, \<open>Property\<close>, \<open>Booking\<close> and \<open>Review\<close> of the Prisma schema,
  with the columns the booking and review handlers read or write. \<open>DateTime\<close> columns
  are milliseconds since the epoch (the time value of a JavaScript \<open>Date\<close>, an integer of
  magnitude at most 8640000000000000), \<open>Int\<close> columns are integers. A \<open>Decimal\<close> column
  and a JavaScript number are rationals: the values a \<open>Decimal(10,2)\<close> column holds are
  singled out by \<open>is_decimal_10_2\<close>, the values of numbers are results of \<open>fl\<close> below.
  The \<open>status\<close> column of a booking is a \<open>String\<close> in the schema and stays one here.
\<close>

datatype UserRole = ADMIN | HOST | GUEST

datatype ListingType = RENT | SALE

datatype RentalPeriod = DAY | MONTH | YEAR

record user =
  user_id :: int
  role :: UserRole

record property =
  property_id :: int
  title :: string
  price :: rat
  listingType :: ListingType
  rentalPeriod :: "RentalPeriod option"
  hostId :: int
  isAvailable :: bool
  availableFrom :: "int option"
  availableTo :: "int option"

record booking =
  booking_id :: int
  propertyId :: int
  guestId :: int
  startDate :: int
  endDate :: int
  totalPrice :: rat
  guestCount :: int
  status :: string
  paymentStatus :: string

record review =
  review_id :: int
  review_propertyId :: int
  userId :: int
  bookingId :: int
  rating :: int
  comment :: "string option"

text \<open>
  The relational store behind the Prisma client: the rows of each table in insertion
  order, and the auto-increment counters of the two tables the handlers insert into.
\<close>

record store =
  properties :: "property list"
  bookings :: "booking list"
  reviews :: "review list"
  nextBookingId :: int
  nextReviewId :: int

section \<open>JavaScript numbers and column types\<close>

text \<open>
  A JavaScript number is a double: every arithmetic operation returns the double nearest
  to the exact result, ties to the even significand. \<open>binexp x\<close> is the exponent \<open>k\<close> with
  \<open>2 ^ k \<le> \<bar>x\<bar> < 2 ^ (k + 1)\<close>, and \<open>fl x\<close> rounds \<open>x\<close> to 53 significant bits. The
  exponent range of doubles is not limited here (no overflow to Infinity, no subnormal
  numbers): the handlers compare such results with 1 and 5 or refuse them at the
  insert, which comes out the same.
\<close>

definition round_half_even :: "rat \<Rightarrow> int" where
  "round_half_even z =
     (let f = \<lfloor>z\<rfloor>; r = z - of_int f
      in if r < 1 / 2 then f else if r > 1 / 2 then f + 1 else if even f then f else f + 1)"

definition binexp :: "rat \<Rightarrow> int" where
  "binexp x =
     (let (a, b) = quotient_of \<bar>x\<bar>; k = bitlen a - bitlen b
      in if 2 powi k \<le> \<bar>x\<bar> then k else k - 1)"

definition fl :: "rat \<Rightarrow> rat" where
  "fl x =
     (if x = 0 then 0
      else let e = binexp x - 52
           in of_int (round_half_even (x / 2 powi e)) * 2 powi e)"

text \<open>
  A number written to a \<open>Decimal(10,2)\<close> column is written with the value of the double
  and rounded to two decimal places, ties away from zero; a value that needs more than
  ten digits then is refused by the database (strict mode), as is an \<open>Int\<close> outside the
  32-bit range. The handlers answer either with status 500.
\<close>

definition round_half_away :: "rat \<Rightarrow> int" where
  "round_half_away z = (if z \<ge> 0 then \<lfloor>z + 1 / 2\<rfloor> else \<lceil>z - 1 / 2\<rceil>)"

definition toDecimal_10_2 :: "rat \<Rightarrow> rat option" where
  "toDecimal_10_2 x =
     (let n = round_half_away (x * 100)
      in if \<bar>n\<bar> < 10 ^ 10 then Some (of_int n / 100) else None)"

definition is_decimal_10_2 :: "rat \<Rightarrow> bool" where
  "is_decimal_10_2 x = (of_int \<lfloor>x * 100\<rfloor> = x * 100 \<and> \<bar>x * 100\<bar> < 10 ^ 10)"

definition fits_int32 :: "int \<Rightarrow> bool" where
  "fits_int32 n = (- (2 ^ 31) \<le> n \<and> n < 2 ^ 31)"

section \<open>JavaScript values of the requests\<close>

text \<open>
  \<open>new Date(x)\<close> is either a date with a millisecond value or the Invalid Date, whose
  value is NaN: every comparison with it is false.
\<close>

datatype jsdate = Date int | InvalidDate

fun date_lt :: "jsdate \<Rightarrow> jsdate \<Rightarrow> bool" where
  "date_lt (Date a) (Date b) = (a < b)"
| "date_lt _ _ = False"

fun date_gt :: "jsdate \<Rightarrow> jsdate \<Rightarrow> bool" where
  "date_gt (Date a) (Date b) = (a > b)"
| "date_gt _ _ = False"

fun date_ge :: "jsdate \<Rightarrow> jsdate \<Rightarrow> bool" where
  "date_ge (Date a) (Date b) = (a \<ge> b)"
| "date_ge _ _ = False"

text \<open>
  An identifier or the guest count of a request is absent (\<open>None\<close>) or an integer of
  magnitude below \<open>10 ^ 21\<close>, for which \<open>parseInt\<close> is the identity; \<open>!x\<close> holds for an
  absent field and for the number 0.
\<close>

definition falsy :: "int option \<Rightarrow> bool" where
  "falsy x = (case x of None \<Rightarrow> True | Some v \<Rightarrow> v = 0)"

text \<open>
  The rating of a review request is used as it arrives: a number or a boolean of a JSON
  body, or a string of a JSON or form body (arrays and objects are left out). Strings
  are ASCII. \<open>!x\<close> holds for the number 0, the empty string and \<open>false\<close>.
\<close>

datatype jsvalue = JNumber rat | JString string | JBool bool

definition falsy_value :: "jsvalue option \<Rightarrow> bool" where
  "falsy_value x =
     (case x of
        None \<Rightarrow> True
      | Some (JNumber r) \<Rightarrow> r = 0
      | Some (JString s) \<Rightarrow> s = []
      | Some (JBool b) \<Rightarrow> \<not> b)"

text \<open>The value of a number: finite, NaN or an infinity; a comparison with NaN is false.\<close>

datatype jsnum = Finite rat | NaN | PosInfinity | NegInfinity

fun js_lt :: "jsnum \<Rightarrow> rat \<Rightarrow> bool" where
  "js_lt (Finite a) b = (a < b)"
| "js_lt NegInfinity b = True"
| "js_lt NaN b = False"
| "js_lt PosInfinity b = False"

fun js_gt :: "jsnum \<Rightarrow> rat \<Rightarrow> bool" where
  "js_gt (Finite a) b = (a > b)"
| "js_gt PosInfinity b = True"
| "js_gt NaN b = False"
| "js_gt NegInfinity b = False"

text \<open>
  Digits and white space. \<open>digit_value\<close> is the value of a character as a digit, 36 for a
  character that is none.
\<close>

definition is_ws :: "char \<Rightarrow> bool" where
  "is_ws c = (c \<in> set [CHR 0x09, CHR 0x0A, CHR 0x0B, CHR 0x0C, CHR 0x0D, CHR 0x20])"

definition digit_value :: "char \<Rightarrow> int" where
  "digit_value c =
     (let n = (of_char c :: int)
      in if 48 \<le> n \<and> n \<le> 57 then n - 48
         else if 97 \<le> n \<and> n \<le> 122 then n - 87
         else if 65 \<le> n \<and> n \<le> 90 then n - 55
         else 36)"

definition is_digit :: "int \<Rightarrow> char \<Rightarrow> bool" where
  "is_digit radix c = (digit_value c < radix)"

definition digits_value :: "int \<Rightarrow> string \<Rightarrow> int" where
  "digits_value radix ds = foldl (\<lambda>acc c. acc * radix + digit_value c) 0 ds"

definition trim :: "string \<Rightarrow> string" where
  "trim s = rev (dropWhile is_ws (rev (dropWhile is_ws s)))"

fun strip_sign :: "string \<Rightarrow> bool \<times> string" where
  "strip_sign [] = (False, [])"
| "strip_sign (c # cs) =
     (if c = CHR ''-'' then (True, cs)
      else if c = CHR ''+'' then (False, cs)
      else (False, c # cs))"

text \<open>
  The conversion of a string to a number (\<open>StringToNumber\<close> of the language): white space
  around it is dropped; the empty string is 0; a literal with the prefix \<open>0x\<close>, \<open>0o\<close> or
  \<open>0b\<close> is an unsigned integer in that radix; otherwise an optional sign, then
  \<open>Infinity\<close> or decimal digits with an optional fraction and an optional exponent;
  everything else is NaN.
\<close>

definition exponent_part :: "string \<Rightarrow> int option" where
  "exponent_part s =
     (case s of
        [] \<Rightarrow> Some 0
      | c # cs \<Rightarrow>
          if c = CHR ''e'' \<or> c = CHR ''E'' then
            (let (neg, ds) = strip_sign cs
             in if ds \<noteq> [] \<and> list_all (is_digit 10) ds then
                  Some ((if neg then - 1 else 1) * digits_value 10 ds)
                else None)
          else None)"

definition unsigned_decimal :: "string \<Rightarrow> rat option" where
  "unsigned_decimal s =
     (let ip = takeWhile (is_digit 10) s;
          r1 = dropWhile (is_digit 10) s;
          (fp, r2) =
            (case r1 of
               [] \<Rightarrow> ([], [])
             | c # cs \<Rightarrow>
                 if c = CHR ''.'' then
                   (takeWhile (is_digit 10) cs, dropWhile (is_digit 10) cs)
                 else ([], r1))
      in if ip = [] \<and> fp = [] then None
         else (case exponent_part r2 of
                 None \<Rightarrow> None
               | Some ex \<Rightarrow>
                   Some (of_int (digits_value 10 (ip @ fp))
                         * 10 powi (ex - int (length fp)))))"

definition non_decimal :: "string \<Rightarrow> int option" where
  "non_decimal s =
     (case s of
        z # p # ds \<Rightarrow>
          if z = CHR ''0'' \<and> ds \<noteq> [] then
            (if (p = CHR ''x'' \<or> p = CHR ''X'') \<and> list_all (is_digit 16) ds then
               Some (digits_value 16 ds)
             else if (p = CHR ''o'' \<or> p = CHR ''O'') \<and> list_all (is_digit 8) ds then
               Some (digits_value 8 ds)
             else if (p = CHR ''b'' \<or> p = CHR ''B'') \<and> list_all (is_digit 2) ds then
               Some (digits_value 2 ds)
             else None)
          else None
      | _ \<Rightarrow> None)"

definition StringToNumber :: "string \<Rightarrow> jsnum" where
  "StringToNumber s =
     (let t = trim s
      in if t = [] then Finite 0
         else (case non_decimal t of
                 Some n \<Rightarrow> Finite (fl (of_int n))
               | None \<Rightarrow>
                   (let (neg, u) = strip_sign t
                    in if u = ''Infinity'' then (if neg then NegInfinity else PosInfinity)
                       else (case unsigned_decimal u of
                               None \<Rightarrow> NaN
                             | Some v \<Rightarrow> Finite (fl (if neg then - v else v))))))"

definition ToNumber :: "jsvalue \<Rightarrow> jsnum" where
  "ToNumber v =
     (case v of
        JNumber r \<Rightarrow> Finite r
      | JString s \<Rightarrow> StringToNumber s
      | JBool b \<Rightarrow> Finite (if b then 1 else 0))"

text \<open>
  \<open>parseInt\<close> without a radix reads a string: leading white space is dropped, then an
  optional sign, then the prefix \<open>0x\<close> (which makes the radix 16), then the longest run of
  digits; no digit gives NaN (\<open>None\<close>), and what follows the digits is ignored. A number
  is first written in decimal notation, so that its integer part is read (for the
  magnitudes from \<open>10 ^ -6\<close> up to \<open>10 ^ 21\<close>, written without an exponent, which covers
  every number that passes the range check before the call); a boolean is written
  \<open>true\<close> or \<open>false\<close>.
\<close>

definition parseInt_string :: "string \<Rightarrow> int option" where
  "parseInt_string s =
     (let (neg, u) = strip_sign (dropWhile is_ws s);
          (radix, v) =
            (case u of
               z # p # r \<Rightarrow>
                 if z = CHR ''0'' \<and> (p = CHR ''x'' \<or> p = CHR ''X'') then (16, r)
                 else (10, u)
             | _ \<Rightarrow> (10, u));
          ds = takeWhile (is_digit radix) v
      in if ds = [] then None
         else Some ((if neg then - 1 else 1) * digits_value radix ds))"

definition parseInt_number :: "rat \<Rightarrow> int" where
  "parseInt_number r = (if r \<ge> 0 then \<lfloor>r\<rfloor> else \<lceil>r\<rceil>)"

definition parseInt :: "jsvalue \<Rightarrow> int option" where
  "parseInt v =
     (case v of
        JNumber r \<Rightarrow> Some (parseInt_number r)
      | JString s \<Rightarrow> parseInt_string s
      | JBool b \<Rightarrow> None)"

record booking_body =
  body_propertyId :: "int option"
  body_startDate :: "jsdate option"
  body_endDate :: "jsdate option"
  body_guestCount :: "int option"

record review_body =
  body_bookingId :: "int option"
  body_review_propertyId :: "int option"
  body_rating :: "jsvalue option"
  body_comment :: "string option"

text \<open>A failed request: the HTTP status code and the \<open>message\<close> of the JSON body.\<close>

type_synonym error = "nat \<times> string"

section \<open>Queries and updates of the persistence layer\<close>

text \<open>
  \<open>findUnique\<close> by a unique column returns the row with that value, if any. An insert
  takes the next value of the table's counter as its identifier. A query or insert that
  is given the Invalid Date, NaN, or a value its column refuses throws, which the
  handlers answer with status 500.
\<close>

definition findProperty :: "store \<Rightarrow> int \<Rightarrow> property option" where
  "findProperty s i = find (\<lambda>p. property_id p = i) (properties s)"

definition findBooking :: "store \<Rightarrow> int \<Rightarrow> booking option" where
  "findBooking s i = find (\<lambda>b. booking_id b = i) (bookings s)"

definition findReview :: "store \<Rightarrow> int \<Rightarrow> review option" where
  "findReview s i = find (\<lambda>r. bookingId r = i) (reviews s)"

text \<open>
  The \<open>findMany\<close> of both the availability check and the booking creation: the bookings
  of the property with status pending or confirmed, \<open>startDate \<le> end\<close> and
  \<open>endDate \<ge> start\<close>.
\<close>

definition existingBookings :: "store \<Rightarrow> int \<Rightarrow> int \<Rightarrow> int \<Rightarrow> booking list" where
  "existingBookings s pid start en =
     filter (\<lambda>b. propertyId b = pid
                \<and> status b \<in> set [''pending'', ''confirmed'']
                \<and> startDate b \<le> en \<and> endDate b \<ge> start) (bookings s)"

definition updateStatus :: "store \<Rightarrow> int \<Rightarrow> string \<Rightarrow> store" where
  "updateStatus s i st =
     s\<lparr>bookings := map (\<lambda>b. if booking_id b = i then b\<lparr>status := st\<rparr> else b) (bookings s)\<rparr>"

section \<open>Availability check: GET /properties/:id/availability\<close>

datatype availability_message =
    NotAvailable
  | OnlyAvailableFrom int
  | OnlyAvailableUntil int
  | AlreadyBooked

record availability =
  available :: bool
  message :: "availability_message option"
  conflictingDates :: "(int \<times> int) list option"

definition checkAvailability ::
  "store \<Rightarrow> int \<Rightarrow> jsdate option \<Rightarrow> jsdate option \<Rightarrow> error + availability" where
  "checkAvailability s pid qStartDate qEndDate =
     (case (qStartDate, qEndDate) of
        (Some start, Some en) \<Rightarrow>
          (case findProperty s pid of
             None \<Rightarrow> Inl (404, ''Property not found'')
           | Some property \<Rightarrow>
               if \<not> isAvailable property then
                 Inr \<lparr>available = False, message = Some NotAvailable, conflictingDates = None\<rparr>
               else if (case availableFrom property of
                          Some f \<Rightarrow> date_lt start (Date f) | None \<Rightarrow> False) then
                 Inr \<lparr>available = False,
                      message = map_option OnlyAvailableFrom (availableFrom property),
                      conflictingDates = None\<rparr>
               else if (case availableTo property of
                          Some t \<Rightarrow> date_gt en (Date t) | None \<Rightarrow> False) then
                 Inr \<lparr>available = False,
                      message = map_option OnlyAvailableUntil (availableTo property),
                      conflictingDates = None\<rparr>
               else
                 (case (start, en) of
                    (Date st, Date e) \<Rightarrow>
                      (let found = existingBookings s pid st e in
                       if length found > 0 then
                         Inr \<lparr>available = False, message = Some AlreadyBooked,
                              conflictingDates =
                                Some (map (\<lambda>b. (startDate b, endDate b)) found)\<rparr>
                       else Inr \<lparr>available = True, message = None, conflictingDates = None\<rparr>)
                  | _ \<Rightarrow> Inl (500, ''Server error'')))
      | _ \<Rightarrow> Inl (400, ''Start and end dates are required''))"

section \<open>Booking creation: POST /bookings\<close>

text \<open>
  The number of days and the total price as the handler computes them between the
  overlap query and the insert, every operation on numbers rounded to a double. The
  price of the property is a \<open>Decimal\<close>, converted to a number when it is multiplied;
  without a rental period the total price is the \<open>Decimal\<close> itself.
\<close>

definition days_between :: "int \<Rightarrow> int \<Rightarrow> int" where
  "days_between start en =
     (let diffTime = \<bar>fl (of_int en - of_int start)\<bar>;
          days = \<lceil>fl (diffTime / (1000 * 60 * 60 * 24))\<rceil>
      in if days = 0 then 1 else days)"

definition computeTotalPrice :: "property \<Rightarrow> int \<Rightarrow> rat" where
  "computeTotalPrice property days =
     (case rentalPeriod property of
        Some DAY \<Rightarrow> fl (fl (price property) * of_int days)
      | Some MONTH \<Rightarrow> fl (fl (price property) * fl (of_int days / 30))
      | Some YEAR \<Rightarrow> fl (fl (price property) * fl (of_int days / 365))
      | None \<Rightarrow> price property)"

definition createBooking ::
  "int \<Rightarrow> store \<Rightarrow> user \<Rightarrow> booking_body \<Rightarrow> (error + booking) \<times> store" where
  "createBooking now s u body =
     (if falsy (body_propertyId body) \<or> body_startDate body = None
         \<or> body_endDate body = None \<or> falsy (body_guestCount body) then
        (Inl (400, ''All fields are required''), s)
      else
        (case (body_propertyId body, body_startDate body, body_endDate body,
               body_guestCount body) of
           (Some pid, Some start, Some en, Some gc) \<Rightarrow>
             (case findProperty s pid of
                None \<Rightarrow> (Inl (404, ''Property not found''), s)
              | Some property \<Rightarrow>
                  if \<not> isAvailable property then
                    (Inl (400, ''Property is not available''), s)
                  else if hostId property = user_id u then
                    (Inl (400, ''You cannot book your own property''), s)
                  else if date_ge start en then
                    (Inl (400, ''End date must be after start date''), s)
                  else if date_lt start (Date now) then
                    (Inl (400, ''Start date cannot be in the past''), s)
                  else
                    (case (start, en) of
                       (Date st, Date e) \<Rightarrow>
                         if length (existingBookings s pid st e) > 0 then
                           (Inl (400, ''Property is already booked for the selected dates''), s)
                         else
                           (case toDecimal_10_2
                                   (computeTotalPrice property (days_between st e)) of
                              None \<Rightarrow> (Inl (500, ''Server error''), s)
                            | Some stored \<Rightarrow>
                                if \<not> fits_int32 gc then (Inl (500, ''Server error''), s)
                                else
                                  (let b = \<lparr>booking_id = nextBookingId s,
                                            propertyId = pid,
                                            guestId = user_id u,
                                            startDate = st,
                                            endDate = e,
                                            totalPrice = stored,
                                            guestCount = gc,
                                            status = ''pending'',
                                            paymentStatus = ''unpaid''\<rparr>
                                   in (Inr b,
                                       s\<lparr>bookings := bookings s @ [b],
                                         nextBookingId := nextBookingId s + 1\<rparr>)))
                     | _ \<Rightarrow> (Inl (500, ''Server error''), s)))
         | _ \<Rightarrow> (Inl (400, ''All fields are required''), s)))"

section \<open>Guest cancellation: PUT /bookings/:id/cancel\<close>

definition cancelBooking ::
  "int \<Rightarrow> store \<Rightarrow> user \<Rightarrow> int \<Rightarrow> (error + string \<times> booking) \<times> store" where
  "cancelBooking now s u i =
     (case findBooking s i of
        None \<Rightarrow> (Inl (404, ''Booking not found''), s)
      | Some b \<Rightarrow>
          if guestId b \<noteq> user_id u then
            (Inl (403, ''Not authorized to cancel this booking''), s)
          else if status b \<noteq> ''pending'' \<and> status b \<noteq> ''confirmed'' then
            (Inl (400, ''Cannot cancel a booking with status: '' @ status b), s)
          else
            (let hoursUntilStart = (of_int (startDate b - now) :: rat) / (1000 * 60 * 60)
             in if hoursUntilStart < 24 then
                  (Inl (400, ''Cancellations must be made at least 24 hours before the booking start date''), s)
                else
                  (let s' = updateStatus s i ''cancelled''
                   in case findProperty s (propertyId b) of
                        None \<Rightarrow> (Inl (500, ''Server error''), s')
                      | Some p \<Rightarrow>
                          (Inr (''Booking for '' @ title p @ '' has been cancelled'',
                                b\<lparr>status := ''cancelled''\<rparr>), s'))))"

section \<open>Host status update: PUT /bookings/:id/status\<close>

definition updateBookingStatus ::
  "store \<Rightarrow> user \<Rightarrow> int \<Rightarrow> string option \<Rightarrow> (error + string \<times> booking) \<times> store" where
  "updateBookingStatus s u i st_opt =
     (case st_opt of
        None \<Rightarrow> (Inl (400, ''Invalid status''), s)
      | Some st \<Rightarrow>
          if st = [] \<or> st \<notin> set [''confirmed'', ''cancelled'', ''completed''] then
            (Inl (400, ''Invalid status''), s)
          else
            (case findBooking s i of
               None \<Rightarrow> (Inl (404, ''Booking not found''), s)
             | Some b \<Rightarrow>
                 (case findProperty s (propertyId b) of
                    None \<Rightarrow> (Inl (500, ''Server error''), s)
                  | Some p \<Rightarrow>
                      if hostId p \<noteq> user_id u \<and> role u \<noteq> ADMIN then
                        (Inl (403, ''Not authorized to update this booking''), s)
                      else
                        (Inr (''Booking for '' @ title p @ '' has been '' @ st,
                              b\<lparr>status := st\<rparr>),
                         updateStatus s i st))))"

section \<open>Review creation: POST /reviews\<close>

definition addReview ::
  "store \<Rightarrow> user \<Rightarrow> review_body \<Rightarrow> (error + review) \<times> store" where
  "addReview s u body =
     (if falsy (body_bookingId body) \<or> falsy (body_review_propertyId body)
         \<or> falsy_value (body_rating body) then
        (Inl (400, ''Booking ID, property ID, and rating are required''), s)
      else
        (case (body_bookingId body, body_review_propertyId body, body_rating body) of
           (Some bid, Some pid, Some r) \<Rightarrow>
             if js_lt (ToNumber r) 1 \<or> js_gt (ToNumber r) 5 then
               (Inl (400, ''Rating must be between 1 and 5''), s)
             else
               (case findBooking s bid of
                  None \<Rightarrow> (Inl (404, ''Booking not found''), s)
                | Some b \<Rightarrow>
                    if guestId b \<noteq> user_id u then
                      (Inl (403, ''Not authorized to review this booking''), s)
                    else if propertyId b \<noteq> pid then
                      (Inl (400, ''Booking and property do not match''), s)
                    else if status b \<noteq> ''completed'' then
                      (Inl (400, ''Can only review completed bookings''), s)
                    else
                      (case findReview s bid of
                         Some existingReview \<Rightarrow>
                           (Inl (400, ''Review already exists for this booking''), s)
                       | None \<Rightarrow>
                           (case parseInt r of
                              None \<Rightarrow> (Inl (500, ''Server error''), s)
                            | Some n \<Rightarrow>
                                if \<not> fits_int32 n then (Inl (500, ''Server error''), s)
                                else
                                  (let rv = \<lparr>review_id = nextReviewId s,
                                             review_propertyId = pid,
                                             userId = user_id u,
                                             bookingId = bid,
                                             rating = n,
                                             comment = body_comment body\<rparr>
                                   in (Inr rv,
                                       s\<lparr>reviews := reviews s @ [rv],
                                         nextReviewId := nextReviewId s + 1\<rparr>)))))
         | _ \<Rightarrow> (Inl (400, ''Booking ID, property ID, and rating are required''), s)))"

section \<open>Routes: the handlers behind their middleware\<close>

text \<open>
  The middleware of \<open>routes/auth.js\<close>. \<open>req.isAuthenticated()\<close> holds when the session
  has a user, which then is \<open>req.user\<close>. \<open>isAuthenticated\<close> answers 401 without one;
  \<open>hasRole\<close> does the same and answers 403 when the role of the user is not listed.
\<close>

definition isAuthenticated :: "user option \<Rightarrow> error + user" where
  "isAuthenticated req_user =
     (case req_user of Some u \<Rightarrow> Inr u | None \<Rightarrow> Inl (401, ''Unauthorized''))"

definition hasRole :: "UserRole list \<Rightarrow> user option \<Rightarrow> error + user" where
  "hasRole roles req_user =
     (case req_user of
        None \<Rightarrow> Inl (401, ''Unauthorized'')
      | Some u \<Rightarrow>
          if role u \<in> set roles then Inr u
          else Inl (403, ''Forbidden: Insufficient permissions''))"

definition isHostOrAdmin :: "user option \<Rightarrow> error + user" where
  "isHostOrAdmin = hasRole [HOST, ADMIN]"

text \<open>
  The three requests that write bookings, each with the session's user, and the store
  after a request made at time \<open>now\<close>.
\<close>

datatype request =
    PostBookings "user option" booking_body
  | PutBookingCancel "user option" int
  | PutBookingStatus "user option" int "string option"

fun step :: "store \<Rightarrow> int \<times> request \<Rightarrow> store" where
  "step s (now, PostBookings req_user body) =
     (case isAuthenticated req_user of
        Inl _ \<Rightarrow> s
      | Inr u \<Rightarrow> snd (createBooking now s u body))"
| "step s (now, PutBookingCancel req_user i) =
     (case isAuthenticated req_user of
        Inl _ \<Rightarrow> s
      | Inr u \<Rightarrow> snd (cancelBooking now s u i))"
| "step s (now, PutBookingStatus req_user i st) =
     (case isAuthenticated req_user of
        Inl _ \<Rightarrow> s
      | Inr _ \<Rightarrow>
          (case isHostOrAdmin req_user of
             Inl _ \<Rightarrow> s
           | Inr u \<Rightarrow> snd (updateBookingStatus s u i st)))"

definition run :: "store \<Rightarrow> (int \<times> request) list \<Rightarrow> store" where
  "run s rs = foldl step s rs"

section \<open>Properties of the store\<close>

definition active :: "booking \<Rightarrow> bool" where
  "active b = (status b \<in> set [''pending'', ''confirmed''])"

definition overlaps :: "booking \<Rightarrow> booking \<Rightarrow> bool" where
  "overlaps b1 b2 = (startDate b1 \<le> endDate b2 \<and> endDate b1 \<ge> startDate b2)"

text \<open>
  No two bookings (rows with different primary keys) of one property are both pending
  or confirmed with overlapping date ranges, the bounds included.
\<close>

definition no_double_booking :: "store \<Rightarrow> bool" where
  "no_double_booking s =
     (\<forall>b1 \<in> set (bookings s). \<forall>b2 \<in> set (bookings s).
        booking_id b1 \<noteq> booking_id b2 \<and> propertyId b1 = propertyId b2
        \<and> active b1 \<and> active b2 \<longrightarrow> \<not> overlaps b1 b2)"

text \<open>The identifiers of the bookings are distinct and below the counter.\<close>

definition ids_ok :: "store \<Rightarrow> bool" where
  "ids_ok s = (distinct (map booking_id (bookings s))
               \<and> (\<forall>b \<in> set (bookings s). booking_id b < nextBookingId s))"

text \<open>Every review belongs to a different booking.\<close>

definition one_review_per_booking :: "store \<Rightarrow> bool" where
  "one_review_per_booking s = distinct (map bookingId (reviews s))"

section \<open>The price rule in the words of the specification\<close>

definition spec_days :: "int \<Rightarrow> int \<Rightarrow> int" where
  "spec_days start en = max 1 \<lceil>(of_int (en - start) :: rat) / 86400000\<rceil>"

definition spec_totalPrice :: "rat \<Rightarrow> RentalPeriod option \<Rightarrow> int \<Rightarrow> rat" where
  "spec_totalPrice pr period days =
     (if period = Some DAY then pr * of_int days
      else if period = Some MONTH then pr * (of_int days / 30)
      else if period = Some YEAR then pr * (of_int days / 365)
      else pr)"

section \<open>Example data\<close>

definition host10 :: user where
  "host10 = \<lparr>user_id = 10, role = HOST\<rparr>"

definition guest20 :: user where
  "guest20 = \<lparr>user_id = 20, role = GUEST\<rparr>"

definition guest21 :: user where
  "guest21 = \<lparr>user_id = 21, role = GUEST\<rparr>"

definition flat :: property where
  "flat = \<lparr>property_id = 1, title = ''Flat'', price = 100, listingType = RENT,
           rentalPeriod = Some DAY, hostId = 10, isAvailable = True,
           availableFrom = None, availableTo = None\<rparr>"

definition store0 :: store where
  "store0 = \<lparr>properties = [flat], bookings = [], reviews = [],
             nextBookingId = 1, nextReviewId = 1\<rparr>"

text \<open>
  Times in milliseconds since the epoch: 1700000000000 is 2023-11-14T22:13:20Z,
  1704067200000 is 2024-01-01, 1704153600000 is 2024-01-02, 1704326400000 is 2024-01-04,
  1704412800000 is 2024-01-05 and 1704585600000 is 2024-01-07 (all at 00:00:00Z).
\<close>

definition body_jan1_jan4 :: booking_body where
  "body_jan1_jan4 = \<lparr>body_propertyId = Some 1, body_startDate = Some (Date 1704067200000),
                     body_endDate = Some (Date 1704326400000), body_guestCount = Some 2\<rparr>"

definition body_jan1_jan2 :: booking_body where
  "body_jan1_jan2 = \<lparr>body_propertyId = Some 1, body_startDate = Some (Date 1704067200000),
                     body_endDate = Some (Date 1704153600000), body_guestCount = Some 2\<rparr>"

text \<open>A request of the first guest's dates in reverse order.\<close>

definition body_reversed :: booking_body where
  "body_reversed = \<lparr>body_propertyId = Some 1, body_startDate = Some (Date 1704326400000),
                    body_endDate = Some (Date 1704067200000), body_guestCount = Some 2\<rparr>"


text \<open>
  A guest books, the host cancels the booking, a second guest books the same dates, and
  the host sets the first booking to confirmed.
\<close>

definition trace_rebook :: "(int \<times> request) list" where
  "trace_rebook =
     [(1700000000000, PostBookings (Some guest20) body_jan1_jan4),
      (1700000100000, PutBookingStatus (Some host10) 1 (Some ''cancelled'')),
      (1700000200000, PostBookings (Some guest21) body_jan1_jan4),
      (1700000300000, PutBookingStatus (Some host10) 1 (Some ''confirmed''))]"

text \<open>A guest books, the host cancels the booking and then confirms it.\<close>

definition trace_reconfirm :: "(int \<times> request) list" where
  "trace_reconfirm =
     [(1700000000000, PostBookings (Some guest20) body_jan1_jan4),
      (1700000100000, PutBookingStatus (Some host10) 1 (Some ''cancelled'')),
      (1700000200000, PutBookingStatus (Some host10) 1 (Some ''confirmed''))]"

text \<open>The bookings of the two guests, and the store after the first one.\<close>

definition booking1 :: booking where
  "booking1 = \<lparr>booking_id = 1, propertyId = 1, guestId = 20,
               startDate = 1704067200000, endDate = 1704326400000,
               totalPrice = 300, guestCount = 2, status = ''pending'',
               paymentStatus = ''unpaid''\<rparr>"

definition booking2 :: booking where
  "booking2 = \<lparr>booking_id = 2, propertyId = 1, guestId = 21,
               startDate = 1704067200000, endDate = 1704326400000,
               totalPrice = 300, guestCount = 2, status = ''pending'',
               paymentStatus = ''unpaid''\<rparr>"

definition store_booked :: store where
  "store_booked = store0\<lparr>bookings := [booking1], nextBookingId := 2\<rparr>"

definition store_completed :: store where
  "store_completed =
     store0\<lparr>bookings := [booking1\<lparr>status := ''completed''\<rparr>], nextBookingId := 2\<rparr>"

text \<open>Review requests for the completed booking, with different ratings.\<close>

definition review_body_five :: review_body where
  "review_body_five = \<lparr>body_bookingId = Some 1, body_review_propertyId = Some 1,
                       body_rating = Some (JNumber 5), body_comment = Some ''Great''\<rparr>"

definition review_body_two :: review_body where
  "review_body_two = \<lparr>body_bookingId = Some 1, body_review_propertyId = Some 1,
                      body_rating = Some (JNumber 2),
                      body_comment = Some ''Changed my mind''\<rparr>"

definition review_body_half :: review_body where
  "review_body_half = \<lparr>body_bookingId = Some 1, body_review_propertyId = Some 1,
                       body_rating = Some (JNumber (7 / 2)), body_comment = None\<rparr>"

definition review_body_100abc :: review_body where
  "review_body_100abc = \<lparr>body_bookingId = Some 1, body_review_propertyId = Some 1,
                         body_rating = Some (JString ''100abc''), body_comment = None\<rparr>"

definition review_body_50e :: review_body where
  "review_body_50e = \<lparr>body_bookingId = Some 1, body_review_propertyId = Some 1,
                      body_rating = Some (JString ''50e-1''), body_comment = None\<rparr>"

text \<open>The review that such a request creates, with the rating that is stored.\<close>

definition review_rated :: "int \<Rightarrow> review" where
  "review_rated n = \<lparr>review_id = 1, review_propertyId = 1, userId = 20, bookingId = 1,
                     rating = n, comment = None\<rparr>"

definition store_reviewed :: store where
  "store_reviewed = snd (addReview store_completed guest20 review_body_five)"



text \<open>The same property, priced 100 per month.\<close>

definition flat_monthly :: property where
  "flat_monthly = flat\<lparr>rentalPeriod := Some MONTH\<rparr>"

definition store_monthly :: store where
  "store_monthly = store0\<lparr>properties := [flat_monthly]\<rparr>"

text \<open>The booking of one day at the monthly price, as it is stored.\<close>

definition booking_monthly :: booking where
  "booking_monthly = booking1\<lparr>endDate := 1704153600000, totalPrice := 333 / 100\<rparr>"

text \<open>What a failed request answers: its HTTP status code.\<close>

definition error_status :: "error + 'a \<Rightarrow> nat option" where
  "error_status r = (case r of Inl e \<Rightarrow> Some (fst e) | Inr _ \<Rightarrow> None)"

section \<open>Rounding\<close>

lemma rhe_error: "\<bar>of_int (round_half_even z) - z\<bar> \<le> 1 / 2"
proof -
  have "of_int \<lfloor>z\<rfloor> \<le> z" "z < of_int \<lfloor>z\<rfloor> + 1" by linarith+
  then show ?thesis
    unfolding round_half_even_def Let_def by (simp split: if_splits)
qed

lemma rhe_int: "round_half_even (of_int n) = n"
  unfolding round_half_even_def by (simp add: Let_def)

lemma rha_error: "\<bar>of_int (round_half_away z) - z\<bar> \<le> 1 / 2"
proof (cases "z \<ge> 0")
  case True
  have "\<bar>of_int \<lfloor>z + 1 / 2\<rfloor> - z\<bar> \<le> 1 / 2" by linarith
  with True show ?thesis unfolding round_half_away_def by (simp only: if_True)
next
  case False
  have "\<bar>of_int \<lceil>z - 1 / 2\<rceil> - z\<bar> \<le> 1 / 2" by linarith
  with False show ?thesis unfolding round_half_away_def by (simp only: if_False)
qed

lemma rha_near:
  assumes "\<bar>z - of_int n\<bar> < 1 / 2" shows "round_half_away z = n"
proof (cases "z \<ge> 0")
  case True
  from assms have "of_int n \<le> z + 1 / 2" "z + 1 / 2 < of_int n + 1" by linarith+
  then have "\<lfloor>z + 1 / 2\<rfloor> = n" by (simp add: floor_eq_iff)
  with True show ?thesis unfolding round_half_away_def by simp
next
  case False
  from assms have "of_int n - 1 < z - 1 / 2" "z - 1 / 2 \<le> of_int n" by linarith+
  then have "\<lceil>z - 1 / 2\<rceil> = n" by (simp add: ceiling_eq_iff)
  with False show ?thesis unfolding round_half_away_def by simp
qed

lemma binexp_le:
  assumes "x \<noteq> 0" shows "2 powi binexp x \<le> \<bar>x\<bar>"
proof -
  obtain a b where q: "quotient_of \<bar>x\<bar> = (a, b)" by (cases "quotient_of \<bar>x\<bar>")
  then have b: "b > 0" and x: "\<bar>x\<bar> = of_int a / of_int b"
    by (auto simp: quotient_of_denom_pos quotient_of_div)
  from assms have "0 < \<bar>x\<bar>" by simp
  with x b have a: "a > 0" by (simp add: zero_less_divide_iff)
  define k where "k = bitlen a - bitlen b"
  show ?thesis
  proof (cases "(2::rat) powi k \<le> \<bar>x\<bar>")
    case True
    then show ?thesis unfolding binexp_def q k_def by (simp add: Let_def)
  next
    case False
    then have e: "binexp x = k - 1"
      unfolding binexp_def q k_def by (simp add: Let_def)
    from bitlen_bounds[OF a] have la: "2 ^ nat (bitlen a - 1) \<le> a" by simp
    from bitlen_bounds[OF b] have lb: "b < 2 ^ nat (bitlen b)" by simp
    have la': "(2::rat) powi (bitlen a - 1) \<le> of_int a"
    proof -
      from a have "bitlen a \<ge> 1" by (auto simp: bitlen_alt_def)
      then have "(2::rat) powi (bitlen a - 1) = 2 ^ nat (bitlen a - 1)"
        by (simp add: power_int_def)
      also have "\<dots> = of_int (2 ^ nat (bitlen a - 1))" by simp
      also have "\<dots> \<le> of_int a" using la by (simp only: of_int_le_iff)
      finally show ?thesis .
    qed
    have lb': "of_int b \<le> (2::rat) powi (bitlen b)"
    proof -
      have "(2::rat) powi (bitlen b) = 2 ^ nat (bitlen b)"
        using bitlen_nonneg[of b] by (simp add: power_int_def)
      also have "\<dots> = of_int (2 ^ nat (bitlen b))" by simp
      finally have "(2::rat) powi (bitlen b) = of_int (2 ^ nat (bitlen b))" .
      moreover have "(of_int b :: rat) \<le> of_int (2 ^ nat (bitlen b))"
        using lb by (simp only: of_int_le_iff)
      ultimately show ?thesis by simp
    qed
    have "(2::rat) powi (k - 1) = 2 powi (bitlen a - 1) / 2 powi (bitlen b)"
      unfolding k_def by (simp add: power_int_diff)
    also have "\<dots> \<le> of_int a / 2 powi (bitlen b)"
      using la' by (simp add: divide_right_mono)
    also have "\<dots> \<le> of_int a / of_int b"
      using lb' a b by (simp add: frac_le)
    finally show ?thesis using e x by simp
  qed
qed

lemma fl_abs_error:
  assumes "x \<noteq> 0" shows "\<bar>fl x - x\<bar> \<le> 2 powi (binexp x - 53)"
proof -
  define e where "e = binexp x - 52"
  define z where "z = x / 2 powi e"
  have p: "(0::rat) < 2 powi e" by simp
  have x: "x = z * 2 powi e" unfolding z_def by simp
  have "fl x = of_int (round_half_even z) * 2 powi e"
    using assms unfolding fl_def e_def z_def by (simp add: Let_def)
  then have "fl x - x = (of_int (round_half_even z) - z) * 2 powi e"
    using x by (simp add: algebra_simps)
  then have "\<bar>fl x - x\<bar> = \<bar>of_int (round_half_even z) - z\<bar> * 2 powi e"
    by (simp add: abs_mult)
  also have "\<dots> \<le> (1 / 2) * 2 powi e"
    using rhe_error[of z] p by (simp add: mult_right_mono)
  also have "\<dots> = 2 powi (binexp x - 53)"
    unfolding e_def by (simp add: power_int_diff)
  finally show ?thesis .
qed

lemma fl_rel_error: "\<bar>fl x - x\<bar> \<le> \<bar>x\<bar> / 2 ^ 53"
proof (cases "x = 0")
  case True
  then show ?thesis by (simp add: fl_def)
next
  case False
  have "\<bar>fl x - x\<bar> \<le> 2 powi (binexp x - 53)" by (rule fl_abs_error[OF False])
  also have "\<dots> = 2 powi binexp x / 2 ^ 53" by (simp add: power_int_diff)
  also have "\<dots> \<le> \<bar>x\<bar> / 2 ^ 53"
    using binexp_le[OF False] by (simp add: divide_right_mono)
  finally show ?thesis .
qed

lemma binexp_less:
  assumes "x \<noteq> 0" "\<bar>x\<bar> < 2 ^ n" shows "binexp x < int n"
proof (rule ccontr)
  assume "\<not> binexp x < int n"
  then have "int n \<le> binexp x" by simp
  then have "(2::rat) powi (int n) \<le> 2 powi binexp x"
    by (intro power_int_increasing) auto
  with binexp_le[OF assms(1)] assms(2) show False by simp
qed

lemma fl_small_error:
  assumes "\<bar>x\<bar> < 2 ^ 27" shows "\<bar>fl x - x\<bar> \<le> 1 / 2 ^ 27"
proof (cases "x = 0")
  case True
  then show ?thesis by (simp add: fl_def)
next
  case False
  from binexp_less[OF False assms] have "binexp x - 53 \<le> - 27" by simp
  then have "(2::rat) powi (binexp x - 53) \<le> 2 powi (- 27)"
    by (intro power_int_increasing) auto
  also have "\<dots> = 1 / 2 ^ 27" by (simp add: power_int_minus field_simps)
  finally show ?thesis using fl_abs_error[OF False] by simp
qed

lemma fl_int:
  assumes "\<bar>n\<bar> < 2 ^ 53" shows "fl (of_int n) = of_int n"
proof (cases "n = 0")
  case True
  then show ?thesis by (simp add: fl_def)
next
  case False
  then have nz: "(of_int n :: rat) \<noteq> 0" by simp
  have "\<bar>(of_int n :: rat)\<bar> < 2 ^ 53"
  proof -
    have "\<bar>(of_int n :: rat)\<bar> = of_int \<bar>n\<bar>" by simp
    also have "\<dots> < of_int (2 ^ 53)" using assms by (simp only: of_int_less_iff)
    finally show ?thesis by simp
  qed
  from binexp_less[OF nz this] have k: "binexp (of_int n) \<le> 52" by simp
  define m where "m = nat (52 - binexp (of_int n :: rat))"
  have e: "binexp (of_int n :: rat) - 52 = - int m" unfolding m_def using k by simp
  have p: "(2::rat) powi (- int m) = 1 / 2 ^ m"
    by (simp add: power_int_minus field_simps)
  have "(of_int n :: rat) / (2 powi (- int m)) = of_int (n * 2 ^ m)"
    unfolding p by simp
  then have "round_half_even ((of_int n :: rat) / (2 powi (- int m))) = n * 2 ^ m"
    by (simp only: rhe_int)
  then have "fl (of_int n) = of_int (n * 2 ^ m) * 2 powi (- int m)"
    using nz unfolding fl_def e[symmetric] by (simp add: Let_def e)
  also have "\<dots> = of_int n" unfolding p by simp
  finally show ?thesis .
qed

lemma fl_mult_error:
  assumes "\<bar>a' - a\<bar> \<le> \<bar>a\<bar> / 2 ^ 53" and "\<bar>b' - b\<bar> \<le> \<bar>b\<bar> / 2 ^ 53"
  shows "\<bar>fl (a' * b') - a * b\<bar> \<le> \<bar>a * b\<bar> / 2 ^ 51"
proof -
  define u :: rat where "u = 1 / 2 ^ 53"
  have u: "0 \<le> u" "u * (2 + u) + (1 + u) * (1 + u) * u \<le> 4 * u" "4 * u = 1 / 2 ^ 51"
    unfolding u_def by simp_all
  from assms have da: "\<bar>a' - a\<bar> \<le> \<bar>a\<bar> * u" and db: "\<bar>b' - b\<bar> \<le> \<bar>b\<bar> * u"
    unfolding u_def by simp_all
  have "\<bar>a'\<bar> \<le> \<bar>a\<bar> + \<bar>a' - a\<bar>" "\<bar>b'\<bar> \<le> \<bar>b\<bar> + \<bar>b' - b\<bar>" by linarith+
  with da db have "\<bar>a'\<bar> \<le> \<bar>a\<bar> + \<bar>a\<bar> * u" "\<bar>b'\<bar> \<le> \<bar>b\<bar> + \<bar>b\<bar> * u" by linarith+
  then have a': "\<bar>a'\<bar> \<le> \<bar>a\<bar> * (1 + u)" and b': "\<bar>b'\<bar> \<le> \<bar>b\<bar> * (1 + u)"
    by (simp_all add: algebra_simps)
  have nn: "0 \<le> \<bar>a\<bar> * (1 + u)" "0 \<le> \<bar>b\<bar> * u" "0 \<le> \<bar>b\<bar> * (1 + u)" "0 \<le> \<bar>a\<bar> * u"
    using u(1) by simp_all
  have t1: "\<bar>a' * (b' - b)\<bar> \<le> (\<bar>a\<bar> * (1 + u)) * (\<bar>b\<bar> * u)"
    unfolding abs_mult using a' db nn by (intro mult_mono) simp_all
  have t2: "\<bar>(a' - a) * b\<bar> \<le> (\<bar>a\<bar> * u) * \<bar>b\<bar>"
    unfolding abs_mult using da by (intro mult_right_mono) simp_all
  have "a' * b' - a * b = a' * (b' - b) + (a' - a) * b" by (simp add: algebra_simps)
  then have "\<bar>a' * b' - a * b\<bar> \<le> \<bar>a' * (b' - b)\<bar> + \<bar>(a' - a) * b\<bar>"
    by (simp only: abs_triangle_ineq)
  with t1 t2 have s1: "\<bar>a' * b' - a * b\<bar> \<le> \<bar>a\<bar> * \<bar>b\<bar> * (u * (2 + u))"
    by (simp add: algebra_simps)
  have t3: "\<bar>a' * b'\<bar> \<le> (\<bar>a\<bar> * (1 + u)) * (\<bar>b\<bar> * (1 + u))"
    unfolding abs_mult using a' b' nn by (intro mult_mono) simp_all
  have "\<bar>fl (a' * b') - a' * b'\<bar> \<le> \<bar>a' * b'\<bar> * u"
    using fl_rel_error[of "a' * b'"] unfolding u_def by simp
  also have "\<dots> \<le> ((\<bar>a\<bar> * (1 + u)) * (\<bar>b\<bar> * (1 + u))) * u"
    using t3 u(1) by (intro mult_right_mono)
  finally have s2: "\<bar>fl (a' * b') - a' * b'\<bar> \<le> \<bar>a\<bar> * \<bar>b\<bar> * ((1 + u) * (1 + u) * u)"
    by (simp add: algebra_simps)
  have "\<bar>fl (a' * b') - a * b\<bar> \<le> \<bar>fl (a' * b') - a' * b'\<bar> + \<bar>a' * b' - a * b\<bar>"
    by linarith
  with s1 s2 have "\<bar>fl (a' * b') - a * b\<bar>
      \<le> \<bar>a\<bar> * \<bar>b\<bar> * (u * (2 + u) + (1 + u) * (1 + u) * u)"
    by (simp add: algebra_simps)
  also have "\<dots> \<le> \<bar>a\<bar> * \<bar>b\<bar> * (4 * u)"
    using u(2) by (intro mult_left_mono) simp_all
  finally show ?thesis unfolding u(3) by (simp add: abs_mult)
qed

lemma toDecimal_near:
  assumes "toDecimal_10_2 y = Some stored" and "\<bar>y - v\<bar> \<le> \<bar>v\<bar> / 2 ^ 51"
  shows "\<bar>y - v\<bar> \<le> 1 / 10 ^ 6" and "\<bar>stored - y\<bar> \<le> 1 / 200"
    and "stored = of_int (round_half_away (y * 100)) / 100"
proof -
  define m where "m = round_half_away (y * 100)"
  from assms(1) have m: "\<bar>m\<bar> < 10000000000" and s: "stored = of_int m / 100"
    unfolding toDecimal_10_2_def m_def by (auto simp: Let_def split: if_splits)
  show "stored = of_int (round_half_away (y * 100)) / 100" using s m_def by simp
  have "\<bar>of_int m - y * 100\<bar> \<le> 1 / 2" unfolding m_def by (rule rha_error)
  then show sy: "\<bar>stored - y\<bar> \<le> 1 / 200" unfolding s by (simp add: abs_le_iff field_simps)
  have "\<bar>(of_int m :: rat)\<bar> = of_int \<bar>m\<bar>" by simp
  also have "\<dots> < of_int 10000000000" using m by (simp only: of_int_less_iff)
  finally have "\<bar>stored\<bar> < 100000000" unfolding s by simp
  with sy have y: "\<bar>y\<bar> < 100000001" by linarith
  have "\<bar>v\<bar> / 2 ^ 51 \<le> \<bar>v\<bar> / 2" by (intro divide_left_mono) simp_all
  with assms(2) have "\<bar>v\<bar> \<le> \<bar>y\<bar> + \<bar>v\<bar> / 2" by linarith
  then have "\<bar>v\<bar> \<le> 2 * \<bar>y\<bar>" by linarith
  with y have "\<bar>v\<bar> \<le> 200000002" by linarith
  then have "\<bar>v\<bar> / 2 ^ 51 \<le> 200000002 / 2 ^ 51" by (intro divide_right_mono) simp_all
  also have "\<dots> \<le> (1 / 10 ^ 6 :: rat)" by simp
  finally show "\<bar>y - v\<bar> \<le> 1 / 10 ^ 6" using assms(2) by linarith
qed

lemma total_DAY_exact:
  assumes "is_decimal_10_2 p"
    and "toDecimal_10_2 (fl (fl p * of_int d)) = Some stored"
  shows "stored = p * of_int d"
proof -
  define n where "n = \<lfloor>p * 100\<rfloor>"
  from assms(1)[unfolded is_decimal_10_2_def] have "of_int \<lfloor>p * 100\<rfloor> = p * 100"
    by (rule conjunct1)
  then have p: "p = of_int n / 100" unfolding n_def by linarith
  define y where "y = fl (fl p * of_int d)"
  have "\<bar>(of_int d :: rat) - of_int d\<bar> \<le> \<bar>of_int d\<bar> / 2 ^ 53" by simp
  from fl_mult_error[OF fl_rel_error[of p] this]
  have e: "\<bar>y - p * of_int d\<bar> \<le> \<bar>p * of_int d\<bar> / 2 ^ 51" unfolding y_def .
  from assms(2) have t: "toDecimal_10_2 y = Some stored" unfolding y_def .
  from toDecimal_near(1)[OF t e] have "\<bar>y - p * of_int d\<bar> \<le> 1 / 10 ^ 6" .
  then have "\<bar>y * 100 - of_int (n * d)\<bar> \<le> 1 / 10000"
    unfolding p by (simp add: abs_le_iff field_simps)
  then have "\<bar>y * 100 - of_int (n * d)\<bar> < 1 / 2" by linarith
  from rha_near[OF this] toDecimal_near(3)[OF t e]
  show ?thesis unfolding p by simp
qed

lemma total_fraction_near:
  assumes "toDecimal_10_2 (fl (fl p * fl w)) = Some stored"
  shows "\<bar>stored - p * w\<bar> \<le> 51 / 10000"
proof -
  define y where "y = fl (fl p * fl w)"
  from fl_mult_error[OF fl_rel_error[of p] fl_rel_error[of w]]
  have e: "\<bar>y - p * w\<bar> \<le> \<bar>p * w\<bar> / 2 ^ 51" unfolding y_def .
  from assms have t: "toDecimal_10_2 y = Some stored" unfolding y_def .
  from toDecimal_near(1,2)[OF t e]
  have "\<bar>y - p * w\<bar> \<le> 1 / 1000000" "\<bar>stored - y\<bar> \<le> 1 / 200" by simp_all
  then show ?thesis by linarith
qed

lemma days_between_spec:
  assumes "0 \<le> st" and "st < e" and "e \<le> 8640000000000000"
  shows "days_between st e = spec_days st e"
proof -
  define n where "n = e - st"
  from assms have n: "0 < n" "n \<le> 8640000000000000" unfolding n_def by simp_all
  have dn: "(of_int e - of_int st :: rat) = of_int n" unfolding n_def by simp
  from n have "\<bar>n\<bar> < 2 ^ 53" by simp
  then have fn: "fl (of_int n) = (of_int n :: rat)" by (rule fl_int)
  define q where "q = (of_int n :: rat) / 86400000"
  have day: "(1000 * 60 * 60 * 24 :: rat) = 86400000" by simp
  from n have an: "\<bar>(of_int n :: rat)\<bar> = of_int n" by simp
  have db: "days_between st e = (if \<lceil>fl q\<rceil> = 0 then 1 else \<lceil>fl q\<rceil>)"
    unfolding days_between_def Let_def dn fn an day q_def ..
  define k where "k = n div 86400000"
  define r where "r = n mod 86400000"
  have nkr: "n = 86400000 * k + r" and r: "0 \<le> r" "r < 86400000"
    unfolding k_def r_def by simp_all
  from n have k: "0 \<le> k" "k \<le> 100000000" unfolding k_def by simp_all
  have qkr: "q = of_int k + of_int r / 86400000"
    unfolding q_def nkr by (simp add: field_simps)
  have cq: "\<lceil>fl q\<rceil> = \<lceil>q\<rceil>"
  proof (cases "r = 0")
    case True
    then have "q = of_int k" using qkr by simp
    moreover from k have "\<bar>k\<bar> < 2 ^ 53" by simp
    ultimately show ?thesis using fl_int[of k] by simp
  next
    case False
    with r have r1: "1 \<le> r" "r \<le> 86399999" by simp_all
    then have "(of_int 1 :: rat) \<le> of_int r" "(of_int r :: rat) \<le> of_int 86399999"
      by (simp_all only: of_int_le_iff)
    then have "(1::rat) \<le> of_int r" "(of_int r :: rat) \<le> 86399999" by simp_all
    then have fr: "1 / 86400000 \<le> (of_int r :: rat) / 86400000"
      "(of_int r :: rat) / 86400000 \<le> 86399999 / 86400000"
      by (simp_all add: divide_right_mono)
    from k have "(of_int 0 :: rat) \<le> of_int k" "(of_int k :: rat) \<le> of_int 100000000"
      by (simp_all only: of_int_le_iff)
    then have kr: "(0::rat) \<le> of_int k" "(of_int k :: rat) \<le> 100000000" by simp_all
    with fr qkr have "\<bar>q\<bar> < 134217728" by linarith
    then have "\<bar>q\<bar> < 2 ^ 27" by simp
    from fl_small_error[OF this] have d: "\<bar>fl q - q\<bar> \<le> 1 / 134217728" by simp
    from fr qkr have qb: "of_int k + 1 / 86400000 \<le> q" "q \<le> of_int k + 86399999 / 86400000"
      by linarith+
    with d have "of_int k < fl q" "fl q \<le> of_int k + 1" by linarith+
    then have "\<lceil>fl q\<rceil> = k + 1" by (simp add: ceiling_eq_iff)
    moreover from qb have "of_int k < q" "q \<le> of_int k + 1" by linarith+
    then have "\<lceil>q\<rceil> = k + 1" by (simp add: ceiling_eq_iff)
    ultimately show ?thesis by simp
  qed
  from n have "0 < q" unfolding q_def by simp
  then have "0 < \<lceil>q\<rceil>" by (simp only: zero_less_ceiling)
  with db cq have "days_between st e = \<lceil>q\<rceil>" by simp
  moreover have "spec_days st e = max 1 \<lceil>q\<rceil>"
    unfolding spec_days_def q_def n_def ..
  ultimately show ?thesis using \<open>0 < \<lceil>q\<rceil>\<close> by simp
qed

section \<open>Lemmas about the handlers\<close>

lemma createBooking_Inr:
  assumes "createBooking now s u body = (Inr b, s')"
  shows "\<exists>pid st e gc p stored.
           body_propertyId body = Some pid \<and> pid \<noteq> 0
         \<and> body_startDate body = Some (Date st) \<and> body_endDate body = Some (Date e)
         \<and> body_guestCount body = Some gc \<and> gc \<noteq> 0 \<and> fits_int32 gc
         \<and> findProperty s pid = Some p \<and> isAvailable p \<and> hostId p \<noteq> user_id u
         \<and> st < e \<and> now \<le> st \<and> existingBookings s pid st e = []
         \<and> toDecimal_10_2 (computeTotalPrice p (days_between st e)) = Some stored
         \<and> b = \<lparr>booking_id = nextBookingId s, propertyId = pid, guestId = user_id u,
                 startDate = st, endDate = e, totalPrice = stored,
                 guestCount = gc, status = ''pending'', paymentStatus = ''unpaid''\<rparr>
         \<and> s' = s\<lparr>bookings := bookings s @ [b], nextBookingId := nextBookingId s + 1\<rparr>"
  using assms unfolding createBooking_def falsy_def
  by (auto split: if_splits option.splits jsdate.splits simp: Let_def)

lemma createBooking_Inl: "createBooking now s u body = (Inl err, s') \<Longrightarrow> s' = s"
  unfolding createBooking_def
  by (auto split: if_splits option.splits jsdate.splits simp: Let_def)

lemma cancelBooking_store:
  "snd (cancelBooking now s u i) = s
   \<or> snd (cancelBooking now s u i) = updateStatus s i ''cancelled''"
  unfolding cancelBooking_def
  by (simp split: option.splits add: Let_def)

lemma updateBookingStatus_store:
  "snd (updateBookingStatus s u i st_opt) = s
   \<or> (\<exists>st. st_opt = Some st \<and> st \<in> set [''confirmed'', ''cancelled'', ''completed'']
        \<and> snd (updateBookingStatus s u i st_opt) = updateStatus s i st)"
  unfolding updateBookingStatus_def
  by (simp split: option.splits add: Let_def)

lemma find_unique:
  assumes "distinct (map f xs)" "find (\<lambda>x. f x = k) xs = Some y" "z \<in> set xs" "f z = k"
  shows "z = y"
proof -
  from assms(2) have "y \<in> set xs" "f y = k"
    by (auto simp: find_Some_iff)
  moreover from assms(1) have "inj_on f (set xs)" by (simp add: distinct_map)
  ultimately show ?thesis using assms(3,4) by (auto dest: inj_onD)
qed

lemma updateStatus_ids_ok: "ids_ok s \<Longrightarrow> ids_ok (updateStatus s i st)"
proof -
  have "booking_id \<circ> (\<lambda>b::booking. if booking_id b = i then b\<lparr>status := st\<rparr> else b) = booking_id"
    by (auto simp: fun_eq_iff)
  then show "ids_ok s \<Longrightarrow> ids_ok (updateStatus s i st)"
    unfolding ids_ok_def updateStatus_def by auto
qed

lemma updateStatus_no_double_booking:
  assumes ok: "ids_ok s" and inv: "no_double_booking s"
    and guard: "st \<notin> set [''pending'', ''confirmed'']
                \<or> (\<exists>b. findBooking s i = Some b \<and> active b)"
  shows "no_double_booking (updateStatus s i st)"
proof -
  let ?f = "\<lambda>b::booking. if booking_id b = i then b\<lparr>status := st\<rparr> else b"
  have act: "active b" if "b \<in> set (bookings s)" "active (?f b)" for b
  proof (cases "booking_id b = i")
    case False
    with that show ?thesis by simp
  next
    case True
    with that(2) have "st \<in> set [''pending'', ''confirmed'']"
      by (simp add: active_def)
    with guard obtain b0 where b0: "findBooking s i = Some b0" "active b0" by auto
    from ok have "distinct (map booking_id (bookings s))" by (simp add: ids_ok_def)
    from find_unique[OF this b0(1)[unfolded findBooking_def] that(1) True]
    show ?thesis using b0(2) by simp
  qed
  have keep: "booking_id (?f b) = booking_id b" "propertyId (?f b) = propertyId b"
    "startDate (?f b) = startDate b" "endDate (?f b) = endDate b" for b :: booking
    by auto
  show ?thesis
    unfolding no_double_booking_def
  proof (intro ballI impI)
    fix c1 c2
    assume c1: "c1 \<in> set (bookings (updateStatus s i st))"
      and c2: "c2 \<in> set (bookings (updateStatus s i st))"
      and h: "booking_id c1 \<noteq> booking_id c2 \<and> propertyId c1 = propertyId c2
              \<and> active c1 \<and> active c2"
    from c1 obtain b1 where b1: "b1 \<in> set (bookings s)" "c1 = ?f b1"
      by (auto simp: updateStatus_def)
    from c2 obtain b2 where b2: "b2 \<in> set (bookings s)" "c2 = ?f b2"
      by (auto simp: updateStatus_def)
    from h b1 b2 have "booking_id b1 \<noteq> booking_id b2" "propertyId b1 = propertyId b2"
      by (auto split: if_splits)
    moreover from h b1 b2 act have "active b1" "active b2" by blast+
    ultimately have "\<not> overlaps b1 b2"
      using inv b1(1) b2(1) unfolding no_double_booking_def by blast
    then show "\<not> overlaps c1 c2"
      unfolding overlaps_def b1(2) b2(2) keep .
  qed
qed

lemma createBooking_ids_ok:
  assumes "ids_ok s" shows "ids_ok (snd (createBooking now s u body))"
proof (cases "fst (createBooking now s u body)")
  case (Inl e)
  then have "createBooking now s u body = (Inl e, snd (createBooking now s u body))"
    by (metis prod.collapse)
  from createBooking_Inl[OF this] assms show ?thesis by simp
next
  case (Inr b)
  then have "createBooking now s u body = (Inr b, snd (createBooking now s u body))"
    by (metis prod.collapse)
  from createBooking_Inr[OF this] obtain b' where
    "snd (createBooking now s u body) =
       s\<lparr>bookings := bookings s @ [b'], nextBookingId := nextBookingId s + 1\<rparr>"
    "booking_id b' = nextBookingId s"
    by auto
  with assms show ?thesis
    unfolding ids_ok_def by fastforce
qed

lemma createBooking_no_double_booking:
  assumes "ids_ok s" "no_double_booking s"
  shows "no_double_booking (snd (createBooking now s u body))"
proof (cases "fst (createBooking now s u body)")
  case (Inl e)
  then have "createBooking now s u body = (Inl e, snd (createBooking now s u body))"
    by (metis prod.collapse)
  from createBooking_Inl[OF this] assms show ?thesis by simp
next
  case (Inr b)
  then have "createBooking now s u body = (Inr b, snd (createBooking now s u body))"
    by (metis prod.collapse)
  from createBooking_Inr[OF this] obtain pid st e where
    s': "snd (createBooking now s u body) =
       s\<lparr>bookings := bookings s @ [b], nextBookingId := nextBookingId s + 1\<rparr>"
    and b: "propertyId b = pid" "startDate b = st" "endDate b = e"
    and free: "existingBookings s pid st e = []"
    by auto
  have clash: "\<not> overlaps c b \<and> \<not> overlaps b c"
    if "c \<in> set (bookings s)" "propertyId c = propertyId b" "active c" for c
  proof -
    from free that have "\<not> (startDate c \<le> e \<and> endDate c \<ge> st)"
      unfolding existingBookings_def active_def b(1)[symmetric]
      by (auto simp: filter_empty_conv)
    then show ?thesis unfolding overlaps_def b by auto
  qed
  show ?thesis
    unfolding no_double_booking_def s'
  proof (intro ballI impI)
    fix c1 c2
    assume c1: "c1 \<in> set (bookings (s\<lparr>bookings := bookings s @ [b], nextBookingId := nextBookingId s + 1\<rparr>))"
      and c2: "c2 \<in> set (bookings (s\<lparr>bookings := bookings s @ [b], nextBookingId := nextBookingId s + 1\<rparr>))"
      and h: "booking_id c1 \<noteq> booking_id c2 \<and> propertyId c1 = propertyId c2
              \<and> active c1 \<and> active c2"
    from c1 c2 consider "c1 \<in> set (bookings s)" "c2 \<in> set (bookings s)"
      | "c1 = b" "c2 \<in> set (bookings s)" | "c1 \<in> set (bookings s)" "c2 = b"
      | "c1 = b" "c2 = b" by auto
    then show "\<not> overlaps c1 c2"
    proof cases
      case 1
      with h assms(2) show ?thesis unfolding no_double_booking_def by blast
    next
      case 2
      with h clash[of c2] show ?thesis by simp
    next
      case 3
      with h clash[of c1] show ?thesis by simp
    next
      case 4
      with h show ?thesis by simp
    qed
  qed
qed

lemma find_map_status:
  "find (\<lambda>b. booking_id b = i) xs = Some b
   \<Longrightarrow> find (\<lambda>b. booking_id b = i)
         (map (\<lambda>b::booking. if booking_id b = i then b\<lparr>status := st\<rparr> else b) xs)
       = Some (b\<lparr>status := st\<rparr>)"
  by (induction xs) (auto split: if_splits)

lemma findBooking_updateStatus:
  "findBooking s i = Some b \<Longrightarrow> findBooking (updateStatus s i st) i = Some (b\<lparr>status := st\<rparr>)"
  unfolding findBooking_def updateStatus_def
  by (simp add: find_map_status)

lemma hours_lt_24: "((of_int d :: rat) / (1000 * 60 * 60) < 24) = (d < 86400000)"
proof -
  have "((of_int d :: rat) / (1000 * 60 * 60) < 24) = ((of_int d :: rat) < of_int 86400000)"
    by (simp add: field_simps)
  also have "\<dots> = (d < 86400000)" by (simp only: of_int_less_iff)
  finally show ?thesis .
qed

lemma cancelBooking_no_double_booking:
  assumes "ids_ok s" "no_double_booking s"
  shows "no_double_booking (snd (cancelBooking now s u i))"
proof -
  from assms have "no_double_booking (updateStatus s i ''cancelled'')"
    by (simp add: updateStatus_no_double_booking)
  with assms(2) cancelBooking_store[of now s u i] show ?thesis by auto
qed

lemma toDecimal_is_decimal:
  assumes "toDecimal_10_2 x = Some stored" shows "is_decimal_10_2 stored"
proof -
  define m where "m = round_half_away (x * 100)"
  from assms have m: "\<bar>m\<bar> < 10000000000" and s: "stored = of_int m / 100"
    unfolding toDecimal_10_2_def m_def by (auto simp: Let_def split: if_splits)
  have "\<bar>(of_int m :: rat)\<bar> = of_int \<bar>m\<bar>" by simp
  also have "\<dots> < of_int 10000000000" using m by (simp only: of_int_less_iff)
  finally have "\<bar>(of_int m :: rat)\<bar> < 10000000000" by simp
  then show ?thesis unfolding is_decimal_10_2_def s by simp
qed

lemma toDecimal_id:
  assumes "is_decimal_10_2 x" shows "toDecimal_10_2 x = Some x"
proof -
  define n where "n = \<lfloor>x * 100\<rfloor>"
  from assms[unfolded is_decimal_10_2_def]
  have h: "of_int \<lfloor>x * 100\<rfloor> = x * 100" and b: "\<bar>x * 100\<bar> < 10 ^ 10"
    by (rule conjunct1, rule conjunct2)
  have x: "x * 100 = of_int n" unfolding n_def by (rule h[symmetric])
  have "\<bar>x * 100 - of_int n\<bar> < 1 / 2" unfolding x by simp
  then have r: "round_half_away (x * 100) = n" by (rule rha_near)
  from b have "\<bar>(of_int n :: rat)\<bar> < of_int 10000000000" unfolding x by simp
  then have "(of_int \<bar>n\<bar> :: rat) < of_int 10000000000" by simp
  then have "\<bar>n\<bar> < 10000000000" by (simp only: of_int_less_iff)
  moreover from x have "x = of_int n / 100" by linarith
  ultimately show ?thesis unfolding toDecimal_10_2_def r by (simp add: Let_def)
qed

lemma createBooking_cases:
  obtains err where "createBooking now s u body = (Inl err, s)"
  | b where "createBooking now s u body = (Inr b, snd (createBooking now s u body))"
proof (cases "fst (createBooking now s u body)")
  case (Inl err)
  then have e: "createBooking now s u body = (Inl err, snd (createBooking now s u body))"
    by (metis prod.collapse)
  from createBooking_Inl[OF e] e that(1) show ?thesis by simp
next
  case (Inr b)
  then have "createBooking now s u body = (Inr b, snd (createBooking now s u body))"
    by (metis prod.collapse)
  with that(2) show ?thesis .
qed

lemma createBooking_past:
  assumes "body_startDate body = Some (Date st)" and "st < now"
  shows "\<exists>c m. createBooking now s u body = (Inl (c, m), s) \<and> (c = 400 \<or> c = 404)"
  using assms unfolding createBooking_def
  by (auto split: option.splits simp: Let_def)

section \<open>Lemmas about the review handler\<close>

lemma addReview_Inr:
  assumes "addReview s u body = (Inr rv, s')"
  shows "\<exists>bid pid r b n.
           body_bookingId body = Some bid \<and> bid \<noteq> 0
         \<and> body_review_propertyId body = Some pid \<and> pid \<noteq> 0
         \<and> body_rating body = Some r \<and> \<not> falsy_value (Some r)
         \<and> \<not> js_lt (ToNumber r) 1 \<and> \<not> js_gt (ToNumber r) 5
         \<and> findBooking s bid = Some b \<and> guestId b = user_id u \<and> propertyId b = pid
         \<and> status b = ''completed'' \<and> findReview s bid = None
         \<and> parseInt r = Some n \<and> fits_int32 n
         \<and> rv = \<lparr>review_id = nextReviewId s, review_propertyId = pid, userId = user_id u,
                  bookingId = bid, rating = n, comment = body_comment body\<rparr>
         \<and> s' = s\<lparr>reviews := reviews s @ [rv], nextReviewId := nextReviewId s + 1\<rparr>"
  using assms unfolding addReview_def falsy_def
  by (auto split: if_splits option.splits simp: Let_def)

lemma addReview_Inl: "addReview s u body = (Inl err, s') \<Longrightarrow> s' = s"
  unfolding addReview_def
  by (auto split: if_splits option.splits simp: Let_def)

lemma addReview_cases:
  obtains err where "addReview s u body = (Inl err, s)"
  | rv where "addReview s u body = (Inr rv, snd (addReview s u body))"
proof (cases "fst (addReview s u body)")
  case (Inl err)
  then have e: "addReview s u body = (Inl err, snd (addReview s u body))"
    by (metis prod.collapse)
  from addReview_Inl[OF e] e that(1) show ?thesis by simp
next
  case (Inr rv)
  then have "addReview s u body = (Inr rv, snd (addReview s u body))"
    by (metis prod.collapse)
  with that(2) show ?thesis .
qed

lemma findReview_Some:
  "r \<in> set (reviews s) \<Longrightarrow> bookingId r = bid \<Longrightarrow> \<exists>r'. findReview s bid = Some r'"
  unfolding findReview_def
  by (cases "find (\<lambda>r. bookingId r = bid) (reviews s)") (auto simp: find_None_iff)

section \<open>The example requests, evaluated\<close>

lemma run_rebook:
  "bookings (run store0 trace_rebook) = [booking1\<lparr>status := ''confirmed''\<rparr>, booking2]"
  by code_simp

lemma rebook_breaks_no_double_booking: "\<not> no_double_booking (run store0 trace_rebook)"
  unfolding no_double_booking_def run_rebook
  by (simp add: booking1_def booking2_def active_def overlaps_def)

section \<open>Double booking\<close>

text \<open>
  Claim C1, at the requests of \<open>trace_rebook\<close>: a guest books 2024-01-01 to 2024-01-04,
  the host cancels that booking, a second guest books the same dates, and the host sets
  the first booking to confirmed. The claim says that no two bookings of one property
  are both pending or confirmed with overlapping date ranges. The store after these
  requests holds booking 1, confirmed, and booking 2, pending: two rows of property 1,
  both active, with the same dates. The booking creation runs the overlap query before
  it inserts; the status update of the host route writes \<open>confirmed\<close> without that
  query and without reading the current status.
\<close>

theorem rebooked_dates_reconfirmed:
  "bookings (run store0 trace_rebook) = [booking1\<lparr>status := ''confirmed''\<rparr>, booking2]
   \<and> booking_id (booking1\<lparr>status := ''confirmed''\<rparr>) = 1 \<and> booking_id booking2 = 2
   \<and> propertyId (booking1\<lparr>status := ''confirmed''\<rparr>) = propertyId booking2
   \<and> active (booking1\<lparr>status := ''confirmed''\<rparr>) \<and> active booking2
   \<and> overlaps (booking1\<lparr>status := ''confirmed''\<rparr>) booking2"
  by (simp add: run_rebook booking1_def booking2_def active_def overlaps_def)

section \<open>Terminal states\<close>

text \<open>
  Claim C2, at the requests of \<open>trace_reconfirm\<close>: a guest books, the host cancels the
  booking and then sets it to confirmed. The claim says that the status of a cancelled
  booking never changes again. The status of booking 1 is cancelled after the first two
  requests and confirmed after the third: the guest cancellation refuses a booking that
  is neither pending nor confirmed, the status update of the host route does not look
  at the current status.
\<close>

theorem cancelled_booking_reconfirmed:
  "map status (bookings (run store0 (take 2 trace_reconfirm))) = [''cancelled'']
   \<and> map status (bookings (run store0 trace_reconfirm)) = [''confirmed'']"
  by code_simp

section \<open>Total price\<close>

text \<open>
  Claim C3 as stated fails for the rental periods MONTH and YEAR. The property priced
  100 per month, booked for one day, stores the total price 3.33: the handler computes
  \<open>100 * (1 / 30)\<close> in double precision and the column \<open>Decimal(10,2)\<close> keeps two decimal
  places, while the claim's \<open>price * (days / 30)\<close> is 10/3.
\<close>

theorem monthly_total_counterexample:
  "createBooking 1700000000000 store_monthly guest20 body_jan1_jan2
     = (Inr booking_monthly, store_monthly\<lparr>bookings := [booking_monthly], nextBookingId := 2\<rparr>)
   \<and> totalPrice booking_monthly = 333 / 100
   \<and> spec_totalPrice (price flat_monthly) (rentalPeriod flat_monthly)
        (spec_days 1704067200000 1704153600000) = 10 / 3"
proof -
  have "createBooking 1700000000000 store_monthly guest20 body_jan1_jan2
     = (Inr booking_monthly, store_monthly\<lparr>bookings := [booking_monthly], nextBookingId := 2\<rparr>)"
    by code_simp
  moreover have "totalPrice booking_monthly = 333 / 100"
    by (simp add: booking_monthly_def)
  moreover have "spec_totalPrice (price flat_monthly) (rentalPeriod flat_monthly)
        (spec_days 1704067200000 1704153600000) = 10 / 3"
    by code_simp
  ultimately show ?thesis by blast
qed

text \<open>
  Claim C3, amended. Take a successful booking creation for a property whose price is a
  value of its column \<open>Decimal(10,2)\<close>, at a time after 1970 and with an end date in the
  range of a JavaScript date. Then the start date is before the end date, the booking
  is appended to the table, and with \<open>days\<close> the number of days between the dates,
  rounded up and at least 1, the stored total price is a value of \<open>Decimal(10,2)\<close> which
  is exactly \<open>price * days\<close> for the rental period DAY, exactly \<open>price\<close> for a property
  without rental period, and within 0.0051 of \<open>price * (days / 30)\<close> for MONTH and of
  \<open>price * (days / 365)\<close> for YEAR: the double-precision product rounded to two decimal
  places, not the product itself.
\<close>

theorem createBooking_totalPrice:
  assumes "createBooking now s u body = (Inr b, s')"
    and "body_propertyId body = Some pid" and "findProperty s pid = Some p"
    and "is_decimal_10_2 (price p)"
    and "body_endDate body = Some (Date e)" and "e \<le> 8640000000000000" and "0 \<le> now"
  shows "\<exists>st. body_startDate body = Some (Date st) \<and> st < e
         \<and> bookings s' = bookings s @ [b]
         \<and> is_decimal_10_2 (totalPrice b)
         \<and> (rentalPeriod p = Some DAY \<or> rentalPeriod p = None
              \<longrightarrow> totalPrice b = spec_totalPrice (price p) (rentalPeriod p) (spec_days st e))
         \<and> \<bar>totalPrice b - spec_totalPrice (price p) (rentalPeriod p) (spec_days st e)\<bar>
              \<le> 51 / 10000"
proof -
  from createBooking_Inr[OF assms(1)] assms(2,3,5) obtain st stored where
    h: "body_startDate body = Some (Date st)" "st < e" "now \<le> st"
       "toDecimal_10_2 (computeTotalPrice p (days_between st e)) = Some stored"
       "totalPrice b = stored"
       "s' = s\<lparr>bookings := bookings s @ [b], nextBookingId := nextBookingId s + 1\<rparr>"
    by auto
  from h(2,3) assms(6,7) have d: "days_between st e = spec_days st e"
    by (intro days_between_spec) simp_all
  define n where "n = spec_days st e"
  note t = h(4)[unfolded d n_def[symmetric]]
  have dec: "is_decimal_10_2 stored" using h(4) by (rule toDecimal_is_decimal)
  have main: "(rentalPeriod p = Some DAY \<or> rentalPeriod p = None
                \<longrightarrow> stored = spec_totalPrice (price p) (rentalPeriod p) n)
              \<and> \<bar>stored - spec_totalPrice (price p) (rentalPeriod p) n\<bar> \<le> 51 / 10000"
  proof (cases "rentalPeriod p")
    case None
    with t have "toDecimal_10_2 (price p) = Some stored"
      by (simp add: computeTotalPrice_def)
    with toDecimal_id[OF assms(4)] have "stored = price p" by simp
    with None show ?thesis by (simp add: spec_totalPrice_def)
  next
    case (Some period)
    show ?thesis
    proof (cases period)
      case DAY
      with Some t have "toDecimal_10_2 (fl (fl (price p) * of_int n)) = Some stored"
        by (simp add: computeTotalPrice_def)
      from total_DAY_exact[OF assms(4) this] Some DAY show ?thesis
        by (simp add: spec_totalPrice_def)
    next
      case MONTH
      with Some t have "toDecimal_10_2 (fl (fl (price p) * fl (of_int n / 30))) = Some stored"
        by (simp add: computeTotalPrice_def)
      from total_fraction_near[OF this] Some MONTH show ?thesis
        by (simp add: spec_totalPrice_def)
    next
      case YEAR
      with Some t have "toDecimal_10_2 (fl (fl (price p) * fl (of_int n / 365))) = Some stored"
        by (simp add: computeTotalPrice_def)
      from total_fraction_near[OF this] Some YEAR show ?thesis
        by (simp add: spec_totalPrice_def)
    qed
  qed
  from h(1,2,5,6) dec main show ?thesis unfolding n_def by auto
qed

text \<open>
  The example of the claim: the property priced 100 per day, booked from 2024-01-01 to
  2024-01-04, stores the total price 300.
\<close>

theorem createBooking_totalPrice_witness:
  "createBooking 1700000000000 store0 guest20 body_jan1_jan4 = (Inr booking1, store_booked)
   \<and> body_propertyId body_jan1_jan4 = Some 1 \<and> findProperty store0 1 = Some flat
   \<and> is_decimal_10_2 (price flat) \<and> price flat = 100 \<and> rentalPeriod flat = Some DAY
   \<and> body_endDate body_jan1_jan4 = Some (Date 1704326400000)
   \<and> totalPrice booking1 = 300
   \<and> (\<exists>st. body_startDate body_jan1_jan4 = Some (Date st) \<and> st < 1704326400000
         \<and> bookings store_booked = bookings store0 @ [booking1]
         \<and> is_decimal_10_2 (totalPrice booking1)
         \<and> totalPrice booking1
             = spec_totalPrice (price flat) (rentalPeriod flat) (spec_days st 1704326400000))"
proof -
  have e: "createBooking 1700000000000 store0 guest20 body_jan1_jan4
             = (Inr booking1, store_booked)"
    by code_simp
  have f: "body_propertyId body_jan1_jan4 = Some 1" "findProperty store0 1 = Some flat"
    "is_decimal_10_2 (price flat)"
    "body_endDate body_jan1_jan4 = Some (Date 1704326400000)"
    by code_simp+
  have r: "(1704326400000 :: int) \<le> 8640000000000000" "(0 :: int) \<le> 1700000000000"
    by simp_all
  have v: "price flat = 100" "rentalPeriod flat = Some DAY" "totalPrice booking1 = 300"
    by (simp_all add: flat_def booking1_def)
  from createBooking_totalPrice[OF e f r] e f v show ?thesis by blast
qed

section \<open>Availability\<close>

text \<open>
  Claim C4. For a property of the store and a requested range of two valid dates, the
  availability check answers, and it answers not available exactly when the property is
  flagged unavailable, or the requested start is before \<open>availableFrom\<close> (when set), or
  the requested end is after \<open>availableTo\<close> (when set), or a pending or confirmed
  booking \<open>b\<close> of the property has \<open>b.startDate \<le> requestedEnd\<close> and
  \<open>b.endDate \<ge> requestedStart\<close>. When the answer comes from the bookings, it lists the
  date ranges of exactly these bookings, and the list is not empty.
\<close>

theorem checkAvailability_iff:
  assumes "findProperty s pid = Some p"
  shows "\<exists>r. checkAvailability s pid (Some (Date st)) (Some (Date e)) = Inr r
     \<and> (\<not> available r \<longleftrightarrow>
          (\<not> isAvailable p
           \<or> (\<exists>f. availableFrom p = Some f \<and> st < f)
           \<or> (\<exists>t. availableTo p = Some t \<and> e > t)
           \<or> (\<exists>b \<in> set (bookings s). propertyId b = pid
                 \<and> (status b = ''pending'' \<or> status b = ''confirmed'')
                 \<and> startDate b \<le> e \<and> endDate b \<ge> st)))
     \<and> (isAvailable p
          \<and> \<not> (\<exists>f. availableFrom p = Some f \<and> st < f)
          \<and> \<not> (\<exists>t. availableTo p = Some t \<and> e > t)
          \<and> (\<exists>b \<in> set (bookings s). propertyId b = pid
                 \<and> (status b = ''pending'' \<or> status b = ''confirmed'')
                 \<and> startDate b \<le> e \<and> endDate b \<ge> st)
        \<longrightarrow> conflictingDates r =
              Some (map (\<lambda>b. (startDate b, endDate b))
                     (filter (\<lambda>b. propertyId b = pid
                         \<and> (status b = ''pending'' \<or> status b = ''confirmed'')
                         \<and> startDate b \<le> e \<and> endDate b \<ge> st) (bookings s)))
            \<and> conflictingDates r \<noteq> Some [])"
proof -
  have ex: "(existingBookings s pid st e \<noteq> []) =
        (\<exists>b \<in> set (bookings s). propertyId b = pid
                 \<and> (status b = ''pending'' \<or> status b = ''confirmed'')
                 \<and> startDate b \<le> e \<and> endDate b \<ge> st)"
    unfolding existingBookings_def by (auto simp: filter_empty_conv)
  have fl: "existingBookings s pid st e =
        filter (\<lambda>b. propertyId b = pid
                         \<and> (status b = ''pending'' \<or> status b = ''confirmed'')
                         \<and> startDate b \<le> e \<and> endDate b \<ge> st) (bookings s)"
    unfolding existingBookings_def by simp
  show ?thesis
  proof (cases "existingBookings s pid st e = []")
    case True
    with ex have "\<not> (\<exists>b \<in> set (bookings s). propertyId b = pid
                 \<and> (status b = ''pending'' \<or> status b = ''confirmed'')
                 \<and> startDate b \<le> e \<and> endDate b \<ge> st)"
      by simp
    with True assms show ?thesis
      unfolding checkAvailability_def
      by (cases "availableFrom p"; cases "availableTo p") (simp_all add: Let_def)
  next
    case False
    with ex have c: "\<exists>b \<in> set (bookings s). propertyId b = pid
                 \<and> (status b = ''pending'' \<or> status b = ''confirmed'')
                 \<and> startDate b \<le> e \<and> endDate b \<ge> st"
      by simp
    from False have ne: "map (\<lambda>b. (startDate b, endDate b)) (existingBookings s pid st e) \<noteq> []"
      by simp
    from False c ne assms show ?thesis
      unfolding checkAvailability_def fl[symmetric]
      by (cases "availableFrom p"; cases "availableTo p") (simp_all add: Let_def)
  qed
qed

text \<open>
  Back to back: with the pending booking 2024-01-01 to 2024-01-04, a request from
  2024-01-04 to 2024-01-05 shares only the boundary date and is answered not available,
  with that booking's range as the conflict.
\<close>

theorem checkAvailability_iff_witness:
  "findProperty store_booked 1 = Some flat
   \<and> checkAvailability store_booked 1 (Some (Date 1704326400000)) (Some (Date 1704412800000))
       = Inr \<lparr>available = False, message = Some AlreadyBooked,
              conflictingDates = Some [(1704067200000, 1704326400000)]\<rparr>
   \<and> (\<exists>r. checkAvailability store_booked 1 (Some (Date 1704326400000))
             (Some (Date 1704412800000)) = Inr r
        \<and> (\<not> available r) =
          (\<not> isAvailable flat
           \<or> (\<exists>f. availableFrom flat = Some f \<and> 1704326400000 < f)
           \<or> (\<exists>t. availableTo flat = Some t \<and> 1704412800000 > t)
           \<or> (\<exists>b \<in> set (bookings store_booked). propertyId b = 1
                 \<and> (status b = ''pending'' \<or> status b = ''confirmed'')
                 \<and> startDate b \<le> 1704412800000 \<and> endDate b \<ge> 1704326400000)))"
proof -
  have f: "findProperty store_booked 1 = Some flat" by code_simp
  have c: "checkAvailability store_booked 1 (Some (Date 1704326400000))
             (Some (Date 1704412800000))
       = Inr \<lparr>available = False, message = Some AlreadyBooked,
              conflictingDates = Some [(1704067200000, 1704326400000)]\<rparr>"
    by code_simp
  from checkAvailability_iff[OF f, of 1704326400000 1704412800000] f c
  show ?thesis by blast
qed

section \<open>Guest cancellation\<close>

text \<open>
  Claim C5. For a booking of the store, its own guest and the booking's property in the
  store, the cancellation succeeds if and only if the status is pending or confirmed and
  the start date is at least 24 hours after the time of the call. When it succeeds the
  booking is cancelled in the store; otherwise the request is answered 400 and the
  store is unchanged.
\<close>

theorem cancelBooking_iff:
  assumes "findBooking s i = Some b" and "guestId b = user_id u"
    and "findProperty s (propertyId b) = Some p"
  shows "((\<exists>r s'. cancelBooking now s u i = (Inr r, s'))
          \<longleftrightarrow> (status b = ''pending'' \<or> status b = ''confirmed'')
              \<and> 24 * 60 * 60 * 1000 \<le> startDate b - now)
       \<and> ((status b = ''pending'' \<or> status b = ''confirmed'')
              \<and> 24 * 60 * 60 * 1000 \<le> startDate b - now
           \<longrightarrow> snd (cancelBooking now s u i) = updateStatus s i ''cancelled''
             \<and> findBooking (snd (cancelBooking now s u i)) i = Some (b\<lparr>status := ''cancelled''\<rparr>))
       \<and> (\<not> ((status b = ''pending'' \<or> status b = ''confirmed'')
              \<and> 24 * 60 * 60 * 1000 \<le> startDate b - now)
           \<longrightarrow> (\<exists>m. cancelBooking now s u i = (Inl (400, m), s)))"
proof (cases "(status b = ''pending'' \<or> status b = ''confirmed'')
              \<and> 24 * 60 * 60 * 1000 \<le> startDate b - now")
  case True
  then have "\<not> startDate b - now < 86400000" by simp
  with True assms have "cancelBooking now s u i =
      (Inr (''Booking for '' @ title p @ '' has been cancelled'', b\<lparr>status := ''cancelled''\<rparr>),
       updateStatus s i ''cancelled'')"
    unfolding cancelBooking_def by (auto simp: Let_def hours_lt_24)
  with True assms(1) show ?thesis
    by (simp add: findBooking_updateStatus)
next
  case False
  then have "(status b \<noteq> ''pending'' \<and> status b \<noteq> ''confirmed'')
             \<or> startDate b - now < 86400000"
    by auto
  with assms have "\<exists>m. cancelBooking now s u i = (Inl (400, m), s)"
    unfolding cancelBooking_def by (auto simp: Let_def hours_lt_24)
  with False show ?thesis by auto
qed

text \<open>
  The boundary: exactly 24 hours before the start the cancellation succeeds, 23 hours
  and 59 minutes before the start it fails.
\<close>

theorem cancelBooking_iff_witness:
  "findBooking store_booked 1 = Some booking1 \<and> guestId booking1 = user_id guest20
   \<and> findProperty store_booked (propertyId booking1) = Some flat
   \<and> startDate booking1 - 1703980800000 = 24 * 60 * 60 * 1000
   \<and> (\<exists>r s'. cancelBooking 1703980800000 store_booked guest20 1 = (Inr r, s'))
   \<and> findBooking (snd (cancelBooking 1703980800000 store_booked guest20 1)) 1
       = Some (booking1\<lparr>status := ''cancelled''\<rparr>)
   \<and> startDate booking1 - 1703980860000 = 23 * 60 * 60 * 1000 + 59 * 60 * 1000
   \<and> (\<exists>m. cancelBooking 1703980860000 store_booked guest20 1 = (Inl (400, m), store_booked))"
proof -
  have h: "findBooking store_booked 1 = Some booking1" "guestId booking1 = user_id guest20"
    "findProperty store_booked (propertyId booking1) = Some flat"
    by code_simp+
  have d: "startDate booking1 - 1703980800000 = 24 * 60 * 60 * 1000"
    "startDate booking1 - 1703980860000 = 23 * 60 * 60 * 1000 + 59 * 60 * 1000"
    "status booking1 = ''pending''"
    by (simp_all add: booking1_def)
  have c1: "(status booking1 = ''pending'' \<or> status booking1 = ''confirmed'')
              \<and> 24 * 60 * 60 * 1000 \<le> startDate booking1 - 1703980800000"
    and c2: "\<not> ((status booking1 = ''pending'' \<or> status booking1 = ''confirmed'')
              \<and> 24 * 60 * 60 * 1000 \<le> startDate booking1 - 1703980860000)"
    by (simp_all add: booking1_def)
  from cancelBooking_iff[OF h, of 1703980800000] cancelBooking_iff[OF h, of 1703980860000]
    h d(1,2) c1 c2
  show ?thesis by blast
qed

section \<open>Reviews\<close>

text \<open>
  Claim C6, at three requests for the completed booking of guest 20. The claim says that
  a rating which is not an integer from 1 to 5 is rejected. The rating \<open>100abc\<close> is
  accepted and stored as 100: as a number it is NaN, so that neither \<open>rating < 1\<close> nor
  \<open>rating > 5\<close> holds, and \<open>parseInt\<close> reads its leading digits. The rating \<open>50e-1\<close> is
  the number 5 in the range check and 50 for \<open>parseInt\<close>. The rating 3.5 passes the range
  check and is stored as 3.
\<close>

theorem rating_outside_range_stored:
  "addReview store_completed guest20 review_body_100abc
     = (Inr (review_rated 100),
        store_completed\<lparr>reviews := [review_rated 100], nextReviewId := 2\<rparr>)
   \<and> addReview store_completed guest20 review_body_50e
     = (Inr (review_rated 50),
        store_completed\<lparr>reviews := [review_rated 50], nextReviewId := 2\<rparr>)
   \<and> addReview store_completed guest20 review_body_half
     = (Inr (review_rated 3),
        store_completed\<lparr>reviews := [review_rated 3], nextReviewId := 2\<rparr>)"
proof (intro conjI)
  show "addReview store_completed guest20 review_body_100abc
     = (Inr (review_rated 100),
        store_completed\<lparr>reviews := [review_rated 100], nextReviewId := 2\<rparr>)"
    by code_simp
  show "addReview store_completed guest20 review_body_50e
     = (Inr (review_rated 50),
        store_completed\<lparr>reviews := [review_rated 50], nextReviewId := 2\<rparr>)"
    by code_simp
  show "addReview store_completed guest20 review_body_half
     = (Inr (review_rated 3),
        store_completed\<lparr>reviews := [review_rated 3], nextReviewId := 2\<rparr>)"
    by code_simp
qed

text \<open>
  Claim C7 as stated fails in the kind of the failure. With a review of booking 1 in
  the store, a second request for the same booking with another rating and comment is
  refused with the status 400 and the message of the duplicate check, not with the
  status 409 of a conflict; the store is unchanged.
\<close>

theorem second_review_counterexample:
  "map bookingId (reviews store_reviewed) = [1]
   \<and> body_bookingId review_body_two = Some 1
   \<and> addReview store_reviewed guest20 review_body_two
       = (Inl (400, ''Review already exists for this booking''), store_reviewed)
   \<and> error_status (fst (addReview store_reviewed guest20 review_body_two)) \<noteq> Some 409"
proof -
  have a: "map bookingId (reviews store_reviewed) = [1]" by code_simp
  have b: "body_bookingId review_body_two = Some 1" by (simp add: review_body_two_def)
  have c: "addReview store_reviewed guest20 review_body_two
       = (Inl (400, ''Review already exists for this booking''), store_reviewed)"
    by code_simp
  from a b c show ?thesis by (simp add: error_status_def)
qed

text \<open>
  Claim C7, amended. The review creation keeps the reviews of the store on different
  bookings, so at most one review of a booking ever exists. A request for a booking that
  already has a review fails, whatever its rating and comment, and leaves the store
  unchanged; when the request passes the checks before the duplicate check (fields
  present, rating let through by the range check, the booking completed, of the
  requesting guest and of the given property), the answer is 400 with the message
  \<open>Review already exists for this booking\<close>.
\<close>

theorem second_review_rejected:
  "(one_review_per_booking s \<longrightarrow> one_review_per_booking (snd (addReview s u body)))
   \<and> (body_bookingId body = Some bid \<and> (\<exists>r \<in> set (reviews s). bookingId r = bid)
      \<longrightarrow> (\<exists>e. addReview s u body = (Inl e, s))
        \<and> (\<forall>pid q b. bid \<noteq> 0 \<and> body_review_propertyId body = Some pid \<and> pid \<noteq> 0
                \<and> body_rating body = Some q \<and> \<not> falsy_value (Some q)
                \<and> \<not> js_lt (ToNumber q) 1 \<and> \<not> js_gt (ToNumber q) 5
                \<and> findBooking s bid = Some b \<and> guestId b = user_id u
                \<and> propertyId b = pid \<and> status b = ''completed''
              \<longrightarrow> addReview s u body
                    = (Inl (400, ''Review already exists for this booking''), s)))"
proof (intro conjI impI allI)
  assume d: "one_review_per_booking s"
  show "one_review_per_booking (snd (addReview s u body))"
  proof (cases rule: addReview_cases[of s u body])
    case (1 err)
    with d show ?thesis by simp
  next
    case (2 rv)
    from addReview_Inr[OF 2] obtain bid' where
      n: "findReview s bid' = None" "bookingId rv = bid'"
      and s': "snd (addReview s u body)
               = s\<lparr>reviews := reviews s @ [rv], nextReviewId := nextReviewId s + 1\<rparr>"
      by auto
    from n have "bookingId rv \<notin> bookingId ` set (reviews s)"
      unfolding findReview_def by (auto simp: find_None_iff)
    with d show ?thesis
      unfolding s' one_review_per_booking_def by simp
  qed
next
  assume h: "body_bookingId body = Some bid \<and> (\<exists>r \<in> set (reviews s). bookingId r = bid)"
  then obtain r' where f: "findReview s bid = Some r'"
    using findReview_Some by blast
  show "\<exists>e. addReview s u body = (Inl e, s)"
  proof (cases rule: addReview_cases[of s u body])
    case (1 err)
    then show ?thesis by blast
  next
    case (2 rv)
    from addReview_Inr[OF 2] h f show ?thesis by auto
  qed
next
  fix pid q b
  assume h: "body_bookingId body = Some bid \<and> (\<exists>r \<in> set (reviews s). bookingId r = bid)"
    and v: "bid \<noteq> 0 \<and> body_review_propertyId body = Some pid \<and> pid \<noteq> 0
                \<and> body_rating body = Some q \<and> \<not> falsy_value (Some q)
                \<and> \<not> js_lt (ToNumber q) 1 \<and> \<not> js_gt (ToNumber q) 5
                \<and> findBooking s bid = Some b \<and> guestId b = user_id u
                \<and> propertyId b = pid \<and> status b = ''completed''"
  from h obtain r' where f: "findReview s bid = Some r'"
    using findReview_Some by blast
  with h v show "addReview s u body
                    = (Inl (400, ''Review already exists for this booking''), s)"
    unfolding addReview_def falsy_def by auto
qed

theorem second_review_rejected_witness:
  "one_review_per_booking store_completed
   \<and> one_review_per_booking (snd (addReview store_completed guest20 review_body_five))
   \<and> body_bookingId review_body_two = Some 1
   \<and> map bookingId (reviews store_reviewed) = [1]
   \<and> (\<exists>e. addReview store_reviewed guest20 review_body_two = (Inl e, store_reviewed))
   \<and> reviews (snd (addReview store_reviewed guest20 review_body_two)) = reviews store_reviewed"
proof -
  have a: "one_review_per_booking store_completed" by code_simp
  have b: "body_bookingId review_body_two = Some 1" by (simp add: review_body_two_def)
  have c: "map bookingId (reviews store_reviewed) = [1]" by code_simp
  then have c': "\<exists>r \<in> set (reviews store_reviewed). bookingId r = 1"
    by (cases "reviews store_reviewed") auto
  from second_review_rejected[of store_completed guest20 review_body_five 1] a
  have 1: "one_review_per_booking (snd (addReview store_completed guest20 review_body_five))"
    by blast
  from second_review_rejected[of store_reviewed guest20 review_body_two 1] b c'
  have 2: "\<exists>e. addReview store_reviewed guest20 review_body_two = (Inl e, store_reviewed)"
    by blast
  then have 3: "reviews (snd (addReview store_reviewed guest20 review_body_two))
                = reviews store_reviewed"
    by auto
  from a b c 1 2 3 show ?thesis by blast
qed

section \<open>Refused booking requests\<close>

text \<open>
  Claim C8. A booking request whose start date is a date before the time of the call
  fails, whatever its other fields, its user and the store: the answer is an error with
  status 400 (or 404 when the property does not exist), the store is unchanged and no
  booking is created.
\<close>

theorem createBooking_past_start_fails:
  assumes "body_startDate body = Some (Date st)" and "st < now"
  shows "(\<exists>c m. createBooking now s u body = (Inl (c, m), s) \<and> (c = 400 \<or> c = 404))
       \<and> bookings (snd (createBooking now s u body)) = bookings s"
proof -
  from createBooking_past[OF assms] obtain c m where
    "createBooking now s u body = (Inl (c, m), s)" "c = 400 \<or> c = 404"
    by blast
  then show ?thesis by auto
qed

theorem createBooking_past_start_fails_witness:
  "body_startDate body_jan1_jan4 = Some (Date 1704067200000)
   \<and> (1704067200000 :: int) < 1704067200001
   \<and> createBooking 1704067200001 store0 guest20 body_jan1_jan4
       = (Inl (400, ''Start date cannot be in the past''), store0)
   \<and> bookings (snd (createBooking 1704067200001 store0 guest20 body_jan1_jan4))
       = bookings store0"
proof -
  have a: "body_startDate body_jan1_jan4 = Some (Date 1704067200000)"
    by (simp add: body_jan1_jan4_def)
  have b: "(1704067200000 :: int) < 1704067200001" by simp
  have c: "createBooking 1704067200001 store0 guest20 body_jan1_jan4
       = (Inl (400, ''Start date cannot be in the past''), store0)"
    by code_simp
  from createBooking_past_start_fails[OF a b, of store0 guest20] a b c
  show ?thesis by blast
qed

text \<open>
  Claim C9. A booking request for a property of the store whose host is the requesting
  user fails with status 400 and leaves the store unchanged, whatever the dates. When
  the fields are present and the property is flagged available, the message is
  \<open>You cannot book your own property\<close>: the check comes before every check of the dates.
\<close>

theorem createBooking_own_property_fails:
  assumes "body_propertyId body = Some pid" and "findProperty s pid = Some p"
    and "hostId p = user_id u"
  shows "(\<exists>m. createBooking now s u body = (Inl (400, m), s))
       \<and> (pid \<noteq> 0 \<and> body_startDate body \<noteq> None \<and> body_endDate body \<noteq> None
            \<and> \<not> falsy (body_guestCount body) \<and> isAvailable p
          \<longrightarrow> createBooking now s u body
                = (Inl (400, ''You cannot book your own property''), s))"
  using assms unfolding createBooking_def
  by (auto simp: falsy_def split: option.splits)

text \<open>
  The host of the example property is refused with valid dates and with the dates in
  reverse order alike.
\<close>

theorem createBooking_own_property_fails_witness:
  "body_propertyId body_jan1_jan4 = Some 1 \<and> body_propertyId body_reversed = Some 1
   \<and> findProperty store0 1 = Some flat \<and> hostId flat = user_id host10
   \<and> createBooking 1700000000000 store0 host10 body_jan1_jan4
       = (Inl (400, ''You cannot book your own property''), store0)
   \<and> createBooking 1700000000000 store0 host10 body_reversed
       = (Inl (400, ''You cannot book your own property''), store0)"
proof -
  have a: "body_propertyId body_jan1_jan4 = Some 1" "body_propertyId body_reversed = Some 1"
    by (simp_all add: body_jan1_jan4_def body_reversed_def)
  have f: "findProperty store0 1 = Some flat" by code_simp
  have h: "hostId flat = user_id host10" by code_simp
  have v: "(1::int) \<noteq> 0 \<and> body_startDate body_jan1_jan4 \<noteq> None
           \<and> body_endDate body_jan1_jan4 \<noteq> None
           \<and> \<not> falsy (body_guestCount body_jan1_jan4) \<and> isAvailable flat"
    "(1::int) \<noteq> 0 \<and> body_startDate body_reversed \<noteq> None
           \<and> body_endDate body_reversed \<noteq> None
           \<and> \<not> falsy (body_guestCount body_reversed) \<and> isAvailable flat"
    by (simp_all add: body_jan1_jan4_def body_reversed_def falsy_def flat_def)
  from createBooking_own_property_fails[OF a(1) f h, of 1700000000000]
    createBooking_own_property_fails[OF a(2) f h, of 1700000000000] a f h v
  show ?thesis by blast
qed

section \<open>The availability window and the booking creation\<close>




end
